theory Spec2Isabelle
  imports Complex_Main "HOL-Library.Sublist"
begin

section \<open>Values shared by the components\<close>

text \<open>
  JavaScript strings are modelled as \<open>string\<close>; a \<open>char\<close> stands for one code unit in the
  Latin-1 range. A \<open>Date\<close> is its epoch value in milliseconds, an \<open>int\<close>. Open-ended metadata
  (\<open>Record<string, unknown>\<close>) and parsed JSON are values of \<open>json\<close>; an object lists its own
  properties.
\<close>

datatype json =
    JNull
  | JBool bool
  | JNum rat
  | JStr string
  | JArr "json list"
  | JObj "(string \<times> json) list"

text \<open>\<open>String.prototype.toLowerCase\<close> on the Latin-1 range: A-Z and the accented capitals
  U+00C0..U+00DE (the multiplication sign U+00D7 apart) move up by 32.\<close>

definition toLowerChar :: "char \<Rightarrow> char" where
  "toLowerChar c =
     (let n = (of_char c :: nat)
      in if (65 \<le> n \<and> n \<le> 90) \<or> (192 \<le> n \<and> n \<le> 222 \<and> n \<noteq> 215)
         then char_of (n + 32) else c)"

definition toLowerCase :: "string \<Rightarrow> string" where
  "toLowerCase s = map toLowerChar s"

text \<open>\<open>s.startsWith(q)\<close> and \<open>s.includes(q)\<close>: the search tries every start position of
  \<open>s\<close>, the end included, so the empty string is included in every string.\<close>

fun startsWith :: "string \<Rightarrow> string \<Rightarrow> bool" where
  "startsWith s [] = True"
| "startsWith [] (q # qs) = False"
| "startsWith (c # cs) (q # qs) = (c = q \<and> startsWith cs qs)"

fun includesStr :: "string \<Rightarrow> string \<Rightarrow> bool" where
  "includesStr [] q = startsWith [] q"
| "includesStr (c # cs) q = (startsWith (c # cs) q \<or> includesStr cs q)"

text \<open>\<open>Array.prototype.join\<close>.\<close>

fun join :: "string list \<Rightarrow> string \<Rightarrow> string" where
  "join [] sep = []"
| "join [x] sep = x"
| "join (x # y # ys) sep = x @ sep @ join (y # ys) sep"

text \<open>The last \<open>n\<close> elements of a list, in the list's order (all of it when it is shorter).\<close>

definition lastn :: "nat \<Rightarrow> 'a list \<Rightarrow> 'a list" where
  "lastn n xs = drop (length xs - n) xs"

section \<open>Message ledger (conversation/history.ts)\<close>

text \<open>The field \<open>id\<close> of a message is \<open>msg_id\<close> here.\<close>

record ConversationMessage =
  msg_id :: string
  personaName :: string
  content :: string
  timestamp :: int
  metadata :: "(string \<times> json) list option"

record ConversationHistory =
  messages :: "ConversationMessage list"
  startTime :: int
  endTime :: "int option"
  topic :: "string option"
  totalMessages :: nat

record ConversationHistoryManager =
  history :: ConversationHistory
  maxMessages :: int
  maxContextWindow :: int

text \<open>The constructor. \<open>now\<close> is the value \<open>new Date()\<close> reads; a topic is stored only when
  it is truthy, that is a non-empty string.\<close>

definition newHistoryManager ::
  "int \<Rightarrow> string option \<Rightarrow> int \<Rightarrow> int \<Rightarrow> ConversationHistoryManager" where
  "newHistoryManager now tp maxMsgs maxCtx =
     \<lparr> history = \<lparr> messages = [], startTime = now, endTime = None,
                   topic = (case tp of None \<Rightarrow> None
                            | Some t \<Rightarrow> if t = [] then None else Some t),
                   totalMessages = 0 \<rparr>,
       maxMessages = maxMsgs, maxContextWindow = maxCtx \<rparr>"

text \<open>\<open>addMessage\<close>. \<open>uuid\<close> and \<open>now\<close> are what \<open>randomUUID()\<close> and \<open>new Date()\<close> return in
  this call. The message is pushed, the counter incremented, and when the array is longer
  than \<open>maxMessages\<close>, \<open>splice(0, length - maxMessages)\<close> deletes that many elements from the
  front (all of them when the count exceeds the length).\<close>

definition mkMessage ::
  "string \<Rightarrow> int \<Rightarrow> string \<Rightarrow> string \<Rightarrow> (string \<times> json) list option \<Rightarrow> ConversationMessage" where
  "mkMessage uuid now pname txt md =
     \<lparr> msg_id = uuid, personaName = pname, content = txt, timestamp = now, metadata = md \<rparr>"

definition addMessage ::
  "string \<Rightarrow> int \<Rightarrow> string \<Rightarrow> string \<Rightarrow> (string \<times> json) list option \<Rightarrow>
   ConversationHistoryManager \<Rightarrow> ConversationMessage \<times> ConversationHistoryManager" where
  "addMessage uuid now pname txt md hm =
     (let message = mkMessage uuid now pname txt md;
          pushed = messages (history hm) @ [message];
          kept = (if int (length pushed) > maxMessages hm
                  then drop (nat (int (length pushed) - maxMessages hm)) pushed
                  else pushed)
      in (message,
          hm\<lparr> history := (history hm)\<lparr> messages := kept,
                                        totalMessages := Suc (totalMessages (history hm)) \<rparr> \<rparr>))"

definition getMessages :: "ConversationHistoryManager \<Rightarrow> ConversationMessage list" where
  "getMessages hm = messages (history hm)"

text \<open>\<open>getLastMessages\<close>: \<open>start = Math.max(0, length - count)\<close>, then \<open>slice(start)\<close>, which
  is empty when \<open>start\<close> is past the end.\<close>

definition getLastMessages :: "ConversationHistoryManager \<Rightarrow> int \<Rightarrow> ConversationMessage list" where
  "getLastMessages hm count =
     (let start = max 0 (int (length (messages (history hm))) - count)
      in drop (nat start) (messages (history hm)))"

definition renderMessage :: "ConversationMessage \<Rightarrow> string" where
  "renderMessage msg = personaName msg @ '': '' @ content msg"

definition getContextWindow :: "ConversationHistoryManager \<Rightarrow> string list" where
  "getContextWindow hm = map renderMessage (getLastMessages hm (maxContextWindow hm))"

definition getConversationHistory :: "ConversationHistoryManager \<Rightarrow> ConversationHistory" where
  "getConversationHistory hm = history hm"

text \<open>\<open>getDuration\<close>: an unset \<open>endTime\<close> is replaced by the current time \<open>now\<close>.\<close>

definition getDuration :: "int \<Rightarrow> ConversationHistoryManager \<Rightarrow> int" where
  "getDuration now hm =
     (case endTime (history hm) of None \<Rightarrow> now | Some e \<Rightarrow> e) - startTime (history hm)"

text \<open>\<open>searchMessages\<close>; the parameter \<open>caseSensitive\<close> defaults to \<open>false\<close> in the source.\<close>

definition searchMessages ::
  "ConversationHistoryManager \<Rightarrow> string \<Rightarrow> bool \<Rightarrow> ConversationMessage list" where
  "searchMessages hm query caseSensitive =
     (let searchTerm = (if caseSensitive then query else toLowerCase query)
      in filter (\<lambda>message.
           let content' = (if caseSensitive then content message
                           else toLowerCase (content message));
               personaName' = (if caseSensitive then personaName message
                               else toLowerCase (personaName message))
           in includesStr content' searchTerm \<or> includesStr personaName' searchTerm)
         (messages (history hm)))"

text \<open>The ledger's \<open>endConversation\<close>, named \<open>endConversationH\<close> apart from the scheduler's.\<close>

definition endConversationH :: "int \<Rightarrow> ConversationHistoryManager \<Rightarrow> ConversationHistoryManager" where
  "endConversationH now hm = hm\<lparr> history := (history hm)\<lparr> endTime := Some now \<rparr> \<rparr>"

definition setTopic :: "string \<Rightarrow> ConversationHistoryManager \<Rightarrow> ConversationHistoryManager" where
  "setTopic t hm = hm\<lparr> history := (history hm)\<lparr> topic := Some t \<rparr> \<rparr>"

text \<open>A sequence of appends: each element carries the identifier and the time read in that
  call together with the arguments of \<open>addMessage\<close>.\<close>

type_synonym append_args = "string \<times> int \<times> string \<times> string \<times> (string \<times> json) list option"

definition appendOne :: "ConversationHistoryManager \<Rightarrow> append_args \<Rightarrow> ConversationHistoryManager" where
  "appendOne hm a = (case a of (uuid, now, pname, txt, md) \<Rightarrow> snd (addMessage uuid now pname txt md hm))"

definition messageOf :: "append_args \<Rightarrow> ConversationMessage" where
  "messageOf a = (case a of (uuid, now, pname, txt, md) \<Rightarrow> mkMessage uuid now pname txt md)"

definition appendAll :: "ConversationHistoryManager \<Rightarrow> append_args list \<Rightarrow> ConversationHistoryManager" where
  "appendAll hm as = foldl appendOne hm as"

section \<open>Conversation scheduler (conversation/manager.ts)\<close>

record PersonaConfig =
  name :: string
  personality :: string
  speakingStyle :: string
  interests :: "string list"
  systemPrompt :: "string option"

text \<open>\<open>Config\<close>, with the nested objects flattened: \<open>ollama.model\<close>, the three fields of
  \<open>conversation\<close> and the two of \<open>personas\<close>.\<close>

record Config =
  model :: string
  cfgMaxTurns :: "int option"
  turnDelay :: int
  contextWindow :: int
  primaryPersona :: PersonaConfig
  secondaryPersona :: PersonaConfig

text \<open>Of \<open>CLIOptions\<close> the scheduler reads \<open>topic\<close> and \<open>maxTurns\<close>.\<close>

record CLIOptions =
  optTopic :: "string option"
  optMaxTurns :: "int option"

datatype PersonaKey = primary | secondary

text \<open>\<open>ConversationState\<close>; its fields \<open>history\<close> and \<open>context\<close> are \<open>historySnapshot\<close> and
  \<open>contextWindowSnapshot\<close> here.\<close>

record ConversationState =
  isActive :: bool
  currentTurn :: nat
  maxTurns :: "int option"
  historySnapshot :: ConversationHistory
  currentPersona :: PersonaKey
  contextWindowSnapshot :: "string list"

text \<open>What a \<open>throw\<close> carries: a \<open>ConversationError\<close> with its message and code, an
  \<open>AIClientError\<close> with its message, a built-in error (\<open>Error\<close>, \<open>TypeError\<close>, \<open>SyntaxError\<close>)
  with its message, or a value that is no instance of \<open>Error\<close>.\<close>

datatype thrown =
    ConversationError string string
  | AIClientError string
  | JsError string
  | NonError

fun isErrorInstance :: "thrown \<Rightarrow> bool" where
  "isErrorInstance NonError = False"
| "isErrorInstance _ = True"

fun isCritical :: "thrown \<Rightarrow> bool" where
  "isCritical (ConversationError msg code) = (code = ''CRITICAL'')"
| "isCritical _ = False"

text \<open>\<open>AIResponse\<close>, its fields prefixed with \<open>ai_\<close>.\<close>

record AIResponse =
  ai_content :: string
  ai_model :: string
  ai_timestamp :: int
  tokensUsed :: "nat option"

text \<open>The signals of \<open>ConversationEvents\<close>; \<open>Ended\<close> carries \<open>totalMessages\<close> and
  \<open>duration\<close>.\<close>

datatype Event =
    Started
  | Message ConversationMessage
  | Thinking string
  | ErrorEvent thrown
  | Ended nat int

text \<open>
  Everything the scheduler reads from outside is a field of \<open>Env\<close>, a function of the
  number of reads made so far: the outcome of the backend's connectivity check and of its
  generation call (for the prompt, system prompt and context passed), the identifier
  \<open>randomUUID()\<close> returns and the time \<open>new Date()\<close> reads.
\<close>

record Env =
  checkConnection :: "nat \<Rightarrow> bool"
  generateResponse :: "nat \<Rightarrow> string \<Rightarrow> string \<Rightarrow> string list \<Rightarrow> thrown + AIResponse"
  randomUUID :: "nat \<Rightarrow> string"
  newDate :: "nat \<Rightarrow> int"

text \<open>The manager object. \<open>emitted\<close> lists the signals emitted so far, oldest first, and
  \<open>reads\<close> counts the reads of the environment. Every signal has a listener, as the command
  line registers them (an \<open>error\<close> signal without a listener would itself raise), no listener
  raises, and no control method is called while the loop runs.\<close>

record ConversationManager =
  config :: Config
  historyManager :: ConversationHistoryManager
  state :: ConversationState
  isRunning :: bool
  emitted :: "Event list"
  reads :: nat

definition emit :: "Event \<Rightarrow> ConversationManager \<Rightarrow> ConversationManager" where
  "emit e m = m\<lparr> emitted := emitted m @ [e] \<rparr>"

text \<open>The constructor; \<open>maxTurns\<close> is copied from the configuration only when it is truthy
  (set and not zero).\<close>

definition newConversationManager :: "Env \<Rightarrow> nat \<Rightarrow> Config \<Rightarrow> ConversationManager" where
  "newConversationManager env t cfg =
     (let hm = newHistoryManager (newDate env t) None 1000 (contextWindow cfg)
      in \<lparr> config = cfg,
           historyManager = hm,
           state = \<lparr> isActive = False, currentTurn = 0,
                     maxTurns = (case cfgMaxTurns cfg of None \<Rightarrow> None
                                 | Some n \<Rightarrow> if n = 0 then None else Some n),
                     historySnapshot = getConversationHistory hm,
                     currentPersona = primary, contextWindowSnapshot = [] \<rparr>,
           isRunning = False, emitted = [], reads = Suc t \<rparr>)"

text \<open>\<open>String.prototype.trim\<close> on the Latin-1 range: tab, line feed, vertical tab, form
  feed, carriage return, space and no-break space are removed from both ends.\<close>

definition isWhiteSpace :: "char \<Rightarrow> bool" where
  "isWhiteSpace c = ((of_char c :: nat) \<in> {9, 10, 11, 12, 13, 32, 160})"

definition trim :: "string \<Rightarrow> string" where
  "trim s = rev (dropWhile isWhiteSpace (rev (dropWhile isWhiteSpace s)))"

definition buildDefaultSystemPrompt :: "PersonaConfig \<Rightarrow> string" where
  "buildDefaultSystemPrompt persona =
     ''You are '' @ name persona @ ''. '' @ [CHR 0x0A, CHR 0x0A]
     @ ''Personality: '' @ personality persona @ [CHR 0x0A, CHR 0x0A]
     @ ''Speaking Style: '' @ speakingStyle persona @ [CHR 0x0A, CHR 0x0A]
     @ ''Interests: '' @ join (interests persona) '', '' @ [CHR 0x0A, CHR 0x0A]
     @ ''Please respond in character, keeping your responses conversational and engaging (2-4 sentences typically).''"

definition buildConversationPrompt :: "ConversationManager \<Rightarrow> string \<Rightarrow> PersonaConfig \<Rightarrow> string" where
  "buildConversationPrompt m conversationContext persona =
     (case topic (getConversationHistory (historyManager m)) of
        None \<Rightarrow> []
      | Some t \<Rightarrow> if t = [] then []
                  else ''The conversation topic is: '' @ t @ [CHR 0x0A, CHR 0x0A])
     @ ''Recent conversation:'' @ [CHR 0x0A] @ conversationContext @ [CHR 0x0A, CHR 0x0A]
     @ ''Please respond as '' @ name persona @ '', continuing this conversation naturally. ''
     @ ''Stay true to your character and speaking style.''"

text \<open>\<open>generatePersonaResponse\<close>: whatever the backend call raises is replaced by a
  \<open>ConversationError\<close> with the code \<open>GENERATION_FAILED\<close>. A response's content is a string,
  so \<open>response.content || ''\<close> is the content itself.\<close>

definition generationFailed :: "PersonaConfig \<Rightarrow> thrown" where
  "generationFailed persona =
     ConversationError (''Failed to generate response for '' @ name persona) ''GENERATION_FAILED''"

definition generatePersonaResponse ::
  "Env \<Rightarrow> PersonaConfig \<Rightarrow> ConversationManager \<Rightarrow> (thrown + string) \<times> ConversationManager" where
  "generatePersonaResponse env persona m =
     (let ctx = getContextWindow (historyManager m);
          systemPrompt = (case systemPrompt persona of
                            None \<Rightarrow> buildDefaultSystemPrompt persona
                          | Some sp \<Rightarrow> if sp = [] then buildDefaultSystemPrompt persona else sp);
          conversationContext = join (lastn 10 ctx) [CHR 0x0A];
          prompt = buildConversationPrompt m conversationContext persona;
          m' = m\<lparr> reads := Suc (reads m) \<rparr>
      in case generateResponse env (reads m) prompt systemPrompt ctx of
           Inr response \<Rightarrow> (Inr (trim (ai_content response)), m')
         | Inl err \<Rightarrow>
             (Inl (generationFailed persona), m'))"

definition getCurrentPersona :: "ConversationManager \<Rightarrow> PersonaConfig option" where
  "getCurrentPersona m =
     (if currentPersona (state m) = primary then Some (primaryPersona (config m))
      else Some (secondaryPersona (config m)))"

definition switchPersona :: "ConversationManager \<Rightarrow> ConversationManager" where
  "switchPersona m =
     m\<lparr> state := (state m)\<lparr> currentPersona :=
            (if currentPersona (state m) = primary then secondary else primary) \<rparr> \<rparr>"

definition updateContext :: "ConversationManager \<Rightarrow> ConversationManager" where
  "updateContext m =
     m\<lparr> state := (state m)\<lparr> contextWindowSnapshot := getContextWindow (historyManager m),
                              historySnapshot := getConversationHistory (historyManager m) \<rparr> \<rparr>"

definition shouldStopConversation :: "ConversationManager \<Rightarrow> bool" where
  "shouldStopConversation m =
     (if (case maxTurns (state m) of None \<Rightarrow> False
          | Some n \<Rightarrow> n \<noteq> 0 \<and> int (currentTurn (state m)) \<ge> n)
      then True
      else if \<not> isRunning m then True
      else False)"

text \<open>\<open>endConversation\<close>; of \<open>getMessageStats()\<close> it uses \<open>totalMessages\<close> and
  \<open>conversationDuration\<close>, the latter computed after \<open>endTime\<close> has been set.\<close>

definition endConversation :: "Env \<Rightarrow> ConversationManager \<Rightarrow> ConversationManager" where
  "endConversation env m =
     (let m1 = m\<lparr> isRunning := False, state := (state m)\<lparr> isActive := False \<rparr> \<rparr>;
          now = newDate env (reads m1);
          m2 = m1\<lparr> historyManager := endConversationH now (historyManager m1),
                   reads := Suc (reads m1) \<rparr>
      in emit (Ended (totalMessages (history (historyManager m2)))
                     (getDuration now (historyManager m2))) m2)"

text \<open>The \<open>catch\<close> block of the loop: the flag returned says whether the loop is left.\<close>

definition catchInLoop :: "thrown \<Rightarrow> ConversationManager \<Rightarrow> bool \<times> ConversationManager" where
  "catchInLoop err m =
     (let m' = (if isErrorInstance err then emit (ErrorEvent err) m else m)
      in if isCritical err then (True, m') else (False, m'))"

text \<open>One pass through the body of the \<open>while\<close> loop of \<open>runConversationLoop\<close>; the flag
  returned is \<open>True\<close> when the pass ends in \<open>break\<close>. The pause between turns changes nothing
  in the state.\<close>

definition loopIteration :: "Env \<Rightarrow> ConversationManager \<Rightarrow> bool \<times> ConversationManager" where
  "loopIteration env m =
     (if shouldStopConversation m then (True, m)
      else case getCurrentPersona m of
        None \<Rightarrow> catchInLoop (ConversationError ''Current persona not found'' ''PERSONA_NOT_FOUND'') m
      | Some persona \<Rightarrow>
          (let m1 = emit (Thinking (name persona)) m
           in case generatePersonaResponse env persona m1 of
                (Inl err, m2) \<Rightarrow> catchInLoop err m2
              | (Inr responseContent, m2) \<Rightarrow>
                  (let (responseMessage, hm) =
                         addMessage (randomUUID env (reads m2)) (newDate env (reads m2))
                           (name persona) responseContent
                           (Some [(''turn'', JNum (of_nat (currentTurn (state m2)))),
                                  (''model'', JStr (model (config m2)))])
                           (historyManager m2);
                       m3 = m2\<lparr> historyManager := hm, reads := Suc (reads m2) \<rparr>;
                       m4 = emit (Message responseMessage) m3;
                       m5 = m4\<lparr> state := (state m4)\<lparr> currentTurn := Suc (currentTurn (state m4)) \<rparr> \<rparr>
                   in (False, updateContext (switchPersona m5)))))"

text \<open>\<open>runConversationLoop\<close>: the result is \<open>None\<close> when the loop never ends.\<close>

partial_function (option) runConversationLoop ::
  "Env \<Rightarrow> ConversationManager \<Rightarrow> ConversationManager option" where
  "runConversationLoop env m =
     (if isRunning m \<and> isActive (state m)
      then (let (left, m') = loopIteration env m
            in if left then Some (endConversation env m') else runConversationLoop env m')
      else Some (endConversation env m))"

text \<open>The part of \<open>startConversation\<close> between the connectivity check and the loop: the
  flags are set, the turn index is reset, the options are applied (each only when it is
  truthy), and the initial prompt is appended for the speaker \<open>User\<close>. \<open>m\<close> is the manager
  after the connectivity check.\<close>

definition setupConversation ::
  "Env \<Rightarrow> string \<Rightarrow> CLIOptions \<Rightarrow> ConversationManager \<Rightarrow> ConversationManager" where
  "setupConversation env initialPrompt options m =
     (let m1 = m\<lparr> isRunning := True,
                   state := (state m)\<lparr> isActive := True, currentTurn := 0 \<rparr> \<rparr>;
          m2 = (case optTopic options of None \<Rightarrow> m1
                | Some t \<Rightarrow> if t = [] then m1
                            else m1\<lparr> historyManager := setTopic t (historyManager m1) \<rparr>);
          m3 = (case optMaxTurns options of None \<Rightarrow> m2
                | Some n \<Rightarrow> if n = 0 then m2
                            else m2\<lparr> state := (state m2)\<lparr> maxTurns := Some n \<rparr> \<rparr>);
          m4 = emit Started m3;
          (initialMessage, hm) =
             addMessage (randomUUID env (reads m4)) (newDate env (reads m4))
               ''User'' initialPrompt None (historyManager m4);
          m5 = m4\<lparr> historyManager := hm, reads := Suc (reads m4) \<rparr>
      in emit (Message initialMessage) m5)"

text \<open>\<open>startConversation\<close>. A failed connectivity check raises \<open>CONNECTION_FAILED\<close> inside
  the \<open>try\<close>, and the \<open>catch\<close> block clears both flags and emits the error. The result is
  \<open>None\<close> when the loop never ends.\<close>

definition connectionFailed :: thrown where
  "connectionFailed = ConversationError
     ''Failed to connect to Ollama. Please ensure Ollama is running and the specified model is available.''
     ''CONNECTION_FAILED''"

definition startConversation ::
  "Env \<Rightarrow> string \<Rightarrow> CLIOptions \<Rightarrow> ConversationManager \<Rightarrow> ConversationManager option" where
  "startConversation env initialPrompt options m =
     (let isConnected = checkConnection env (reads m);
          m0 = m\<lparr> reads := Suc (reads m) \<rparr>
      in if \<not> isConnected
         then Some (emit (ErrorEvent connectionFailed)
                      (m0\<lparr> isRunning := False, state := (state m0)\<lparr> isActive := False \<rparr> \<rparr>))
         else runConversationLoop env (setupConversation env initialPrompt options m0))"

section \<open>Observations on a run\<close>

text \<open>The persona configuration that \<open>getCurrentPersona\<close> selects.\<close>

definition personaOf :: "ConversationManager \<Rightarrow> PersonaConfig" where
  "personaOf m = (if currentPersona (state m) = primary then primaryPersona (config m)
                  else secondaryPersona (config m))"

text \<open>\<open>loopState env m k\<close> is the manager at the head of the loop after \<open>k\<close> complete passes
  through its body, starting from \<open>m\<close>; it is \<open>None\<close> when the loop was left before.\<close>

fun loopState :: "Env \<Rightarrow> ConversationManager \<Rightarrow> nat \<Rightarrow> ConversationManager option" where
  "loopState env m 0 = Some m"
| "loopState env m (Suc k) =
     (case loopState env m k of
        None \<Rightarrow> None
      | Some m' \<Rightarrow>
          if isRunning m' \<and> isActive (state m')
          then (let (left, m'') = loopIteration env m' in if left then None else Some m'')
          else None)"

fun isErrorEvent :: "Event \<Rightarrow> bool" where
  "isErrorEvent (ErrorEvent e) = True"
| "isErrorEvent _ = False"

fun isEnded :: "Event \<Rightarrow> bool" where
  "isEnded (Ended n d) = True"
| "isEnded _ = False"

text \<open>The names carried by the \<open>thinking\<close> signals of a trace, in order: the speakers of the
  turns attempted.\<close>

fun thinkingNames :: "Event list \<Rightarrow> string list" where
  "thinkingNames [] = []"
| "thinkingNames (Thinking n # es) = n # thinkingNames es"
| "thinkingNames (e # es) = thinkingNames es"

text \<open>The speakers of the messages appended according to a trace.\<close>

fun messageSpeakers :: "Event list \<Rightarrow> string list" where
  "messageSpeakers [] = []"
| "messageSpeakers (Message msg # es) = personaName msg # messageSpeakers es"
| "messageSpeakers (e # es) = messageSpeakers es"

text \<open>The loop is at its head, active, and no stop condition holds.\<close>

definition retrying :: "ConversationManager \<Rightarrow> bool" where
  "retrying m = (isRunning m \<and> isActive (state m) \<and> \<not> shouldStopConversation m)"

fun otherKey :: "PersonaKey \<Rightarrow> PersonaKey" where
  "otherKey primary = secondary"
| "otherKey secondary = primary"

definition nameOfKey :: "Config \<Rightarrow> PersonaKey \<Rightarrow> string" where
  "nameOfKey cfg k = (if k = primary then name (primaryPersona cfg) else name (secondaryPersona cfg))"

text \<open>\<open>alternating cfg k n\<close>: the display names of \<open>n\<close> speakers taking turns, \<open>k\<close> first.\<close>

fun alternating :: "Config \<Rightarrow> PersonaKey \<Rightarrow> nat \<Rightarrow> string list" where
  "alternating cfg k 0 = []"
| "alternating cfg k (Suc n) = nameOfKey cfg k # alternating cfg (otherKey k) n"

text \<open>The manager at the first evaluation of the loop condition, when \<open>startConversation\<close>
  is called on \<open>m\<close> and the connectivity check succeeds.\<close>

definition loopEntry ::
  "Env \<Rightarrow> string \<Rightarrow> CLIOptions \<Rightarrow> ConversationManager \<Rightarrow> ConversationManager" where
  "loopEntry env initialPrompt options m =
     setupConversation env initialPrompt options (m\<lparr> reads := Suc (reads m) \<rparr>)"

text \<open>The message recorded for the initial prompt, with the identifier and time read at
  read number \<open>k\<close>.\<close>

definition promptMessage :: "Env \<Rightarrow> nat \<Rightarrow> string \<Rightarrow> ConversationMessage" where
  "promptMessage env k initialPrompt =
     mkMessage (randomUUID env k) (newDate env k) ''User'' initialPrompt None"

section \<open>Persona registry (conversation/personas.ts)\<close>

text \<open>The registry is a \<open>Map\<close> from keys to configurations; it is modelled by its entries in
  insertion order, one per key.\<close>

record PersonaManager =
  personas :: "(string \<times> PersonaConfig) list"

definition getAllPersonas :: "PersonaManager \<Rightarrow> PersonaConfig list" where
  "getAllPersonas pm = map snd (personas pm)"

text \<open>
  \<open>[...allPersonas].sort(() => Math.random() - 0.5)\<close>. The comparator ignores its arguments
  and returns the next value of the random source minus one half; \<open>rnd k\<close> is the value of
  the \<open>k\<close>-th call of \<open>Math.random()\<close>. The engine's sort is modelled as an insertion sort:
  each element in turn is inserted into the part already ordered, in front of the first
  element against which the comparator is negative. The functions return the ordered list
  and the number of random values consumed so far.
\<close>

fun insertRandom :: "(nat \<Rightarrow> rat) \<Rightarrow> nat \<Rightarrow> 'a \<Rightarrow> 'a list \<Rightarrow> 'a list \<times> nat" where
  "insertRandom rnd k x [] = ([x], k)"
| "insertRandom rnd k x (y # ys) =
     (if rnd k - 1 / 2 < 0 then (x # y # ys, Suc k)
      else (let (zs, k') = insertRandom rnd (Suc k) x ys in (y # zs, k')))"

fun sortRandom :: "(nat \<Rightarrow> rat) \<Rightarrow> nat \<Rightarrow> 'a list \<Rightarrow> 'a list \<Rightarrow> 'a list \<times> nat" where
  "sortRandom rnd k done [] = (done, k)"
| "sortRandom rnd k done (x # xs) =
     (let (done', k') = insertRandom rnd k x done in sortRandom rnd k' done' xs)"

definition insufficientPersonas :: thrown where
  "insufficientPersonas = JsError ''At least 2 personas are required for a conversation''"

text \<open>\<open>getRandomPersonaPair\<close>; \<open>shuffled[0]\<close> and \<open>shuffled[1]\<close> are read from a list as long
  as the registry, which has two entries at least at that point.\<close>

definition getRandomPersonaPair ::
  "(nat \<Rightarrow> rat) \<Rightarrow> PersonaManager \<Rightarrow> thrown + (PersonaConfig \<times> PersonaConfig)" where
  "getRandomPersonaPair rnd pm =
     (let allPersonas = getAllPersonas pm
      in if length allPersonas < 2 then Inl insufficientPersonas
         else (let shuffled = fst (sortRandom rnd 0 [] allPersonas)
               in Inr (shuffled ! 0, shuffled ! 1)))"

section \<open>Conversation analytics (conversation/analytics.ts)\<close>

datatype SummaryType = periodic | context_compact | final

text \<open>
  \<open>ConversationSummary\<close>. The fields taken from the backend's parsed answer hold whatever
  JSON value was found there, so \<open>content\<close>, \<open>keyTopics\<close> and \<open>participantContributions\<close> are
  values of \<open>json\<close>; \<open>messageRange\<close> is the pair of its \<open>start\<close> and \<open>end\<close>.
\<close>

record ConversationSummary =
  summary_id :: string
  summary_type :: SummaryType
  summary_content :: json
  messageRange :: "int \<times> int"
  createdAt :: int
  keyTopics :: json
  participantContributions :: json

text \<open>The decimal numeral of a number, as a template literal prints it.\<close>

fun showNat :: "nat \<Rightarrow> string" where
  "showNat n = (if n < 10 then [char_of (48 + n)]
                else showNat (n div 10) @ [char_of (48 + n mod 10)])"

declare showNat.simps [simp del]

text \<open>The elements of a list without repetitions, each at its first occurrence: the order of
  \<open>[...new Set(xs)]\<close>.\<close>

fun distinctFirst :: "'a list \<Rightarrow> 'a list" where
  "distinctFirst [] = []"
| "distinctFirst (x # xs) = x # filter (\<lambda>y. y \<noteq> x) (distinctFirst xs)"

text \<open>Truthiness of a JSON value, and the value of a property read \<open>v.key\<close>: reading a property
  of \<open>null\<close> raises a \<open>TypeError\<close>, an object yields its own property or \<open>undefined\<close>
  (here \<open>None\<close>), and every other value yields \<open>undefined\<close> for the keys read here.\<close>

fun truthy :: "json \<Rightarrow> bool" where
  "truthy JNull = False"
| "truthy (JBool b) = b"
| "truthy (JNum n) = (n \<noteq> 0)"
| "truthy (JStr s) = (s \<noteq> [])"
| "truthy (JArr xs) = True"
| "truthy (JObj kvs) = True"

fun getProperty :: "json \<Rightarrow> string \<Rightarrow> thrown + json option" where
  "getProperty JNull key = Inl (JsError ''Cannot read properties of null'')"
| "getProperty (JObj kvs) key = Inr (map_of kvs key)"
| "getProperty v key = Inr None"

text \<open>\<open>x || d\<close> for a property value \<open>x\<close> that may be \<open>undefined\<close>.\<close>

fun orElse :: "json option \<Rightarrow> json \<Rightarrow> json" where
  "orElse None d = d"
| "orElse (Some v) d = (if truthy v then v else d)"

definition buildSummaryPrompt ::
  "string \<Rightarrow> SummaryType \<Rightarrow> PersonaConfig \<times> PersonaConfig \<Rightarrow> string" where
  \<open>buildSummaryPrompt conversationText ty ps =
     (case ps of (persona1, persona2) \<Rightarrow>
        ''Please analyze and summarize the following conversation between '' @ name persona1
        @ '' and '' @ name persona2 @ '':'' @ [CHR 0x0A, CHR 0x0A]
        @ conversationText @ [CHR 0x0A, CHR 0x0A]
        @ (case ty of
             periodic \<Rightarrow> ''Create a concise summary of the key points discussed, major insights, and the direction of the conversation.''
           | context_compact \<Rightarrow> ''Create a condensed summary that preserves the essential context and key insights for continuing the conversation.''
           | final \<Rightarrow> ''Create a comprehensive summary of the entire conversation, including main themes, conclusions, and significant insights.'')
        @ [CHR 0x0A, CHR 0x0A] @ ''Please format your response as JSON with the following structure:'' @ [CHR 0x0A]
        @ ''{'' @ [CHR 0x0A]
        @ ''  "summary": "Main summary text",'' @ [CHR 0x0A]
        @ ''  "keyTopics": ["topic1", "topic2", "topic3"],'' @ [CHR 0x0A]
        @ ''  "contributions": {'' @ [CHR 0x0A]
        @ ''    "'' @ name persona1 @ ''": "Brief description of their main contributions",'' @ [CHR 0x0A]
        @ ''    "'' @ name persona2 @ ''": "Brief description of their main contributions"'' @ [CHR 0x0A]
        @ ''  }'' @ [CHR 0x0A]
        @ ''}'')\<close>

definition summarySystemPrompt :: string where
  "summarySystemPrompt =
     ''You are a helpful assistant that creates concise, insightful summaries of conversations between AI personas.''"

text \<open>
  \<open>generateBasicSummary\<close>. The keyword extraction \<open>extractKeywords\<close> is string processing
  only (lower-casing, a replacement, a split, a filter, a count and a sort) and raises
  nothing; its result is the parameter \<open>kw\<close>. The count of a speaker is the number of the
  messages with that name (speaker names that are properties of \<open>Object.prototype\<close> are
  outside the model). The identifier and the time are read at read number \<open>k\<close>.
\<close>

definition generateBasicSummary ::
  "(string \<Rightarrow> string list) \<Rightarrow> Env \<Rightarrow> nat \<Rightarrow> ConversationMessage list \<Rightarrow> SummaryType
   \<Rightarrow> ConversationSummary" where
  "generateBasicSummary kw env k msgs ty =
     (let speakers = distinctFirst (map personaName msgs);
          messagesByPersona = (\<lambda>p. length (filter (\<lambda>msg. personaName msg = p) msgs));
          topics = kw (join (map content msgs) '' '');
          content' = ''Conversation summary: '' @ showNat (length msgs)
                 @ '' messages exchanged between '' @ join speakers '' and ''
                 @ ''. Key topics discussed: '' @ join (take 3 topics) '', '' @ ''.''
      in \<lparr> summary_id = randomUUID env k,
           summary_type = ty,
           summary_content = JStr content',
           messageRange = (0, int (length msgs) - 1),
           createdAt = newDate env k,
           keyTopics = JArr (map JStr (take 5 topics)),
           participantContributions =
             JObj (map (\<lambda>p. (p, JStr (''Contributed '' @ showNat (messagesByPersona p) @ '' messages'')))
                       speakers) \<rparr>)"

text \<open>
  \<open>parseSummaryResponse\<close>. \<open>JSON.parse\<close> is the parameter \<open>jsonParse\<close>, \<open>None\<close> where it
  raises a \<open>SyntaxError\<close>. The identifier is read before the properties of the parsed value,
  so when the value is \<open>null\<close> the fallback reads the next one.
\<close>

definition parseSummaryResponse ::
  "(string \<Rightarrow> string list) \<Rightarrow> (string \<Rightarrow> json option) \<Rightarrow> Env \<Rightarrow> nat \<Rightarrow> string
   \<Rightarrow> ConversationMessage list \<Rightarrow> SummaryType \<Rightarrow> ConversationSummary" where
  "parseSummaryResponse kw jsonParse env k response msgs ty =
     (case jsonParse response of
        None \<Rightarrow> generateBasicSummary kw env k msgs ty
      | Some parsed \<Rightarrow>
          (case getProperty parsed ''summary'' of
             Inl err \<Rightarrow> generateBasicSummary kw env (Suc k) msgs ty
           | Inr summary \<Rightarrow>
               \<lparr> summary_id = randomUUID env k,
                 summary_type = ty,
                 summary_content = orElse summary (JStr ''Summary not available''),
                 messageRange = (0, int (length msgs) - 1),
                 createdAt = newDate env k,
                 keyTopics = (case getProperty parsed ''keyTopics'' of
                                Inr (Some (JArr xs)) \<Rightarrow> JArr xs
                              | _ \<Rightarrow> JArr []),
                 participantContributions =
                   (case getProperty parsed ''contributions'' of
                      Inr c \<Rightarrow> orElse c (JObj [])
                    | Inl err \<Rightarrow> JObj []) \<rparr>))"

text \<open>
  \<open>generateSummary\<close>. The backend is called without a context at read number \<open>k\<close>; whatever
  it raises is caught, and the basic summary is returned.
\<close>

definition generateSummary ::
  "(string \<Rightarrow> string list) \<Rightarrow> (string \<Rightarrow> json option) \<Rightarrow> Env \<Rightarrow> nat
   \<Rightarrow> ConversationMessage list \<Rightarrow> SummaryType \<Rightarrow> PersonaConfig \<times> PersonaConfig
   \<Rightarrow> thrown + ConversationSummary" where
  "generateSummary kw jsonParse env k msgs ty ps =
     (if length msgs = 0
      then Inl (JsError ''Cannot generate summary for empty message list'')
      else (let conversationText = join (map renderMessage msgs) [CHR 0x0A];
                summaryPrompt = buildSummaryPrompt conversationText ty ps
            in case generateResponse env k summaryPrompt summarySystemPrompt [] of
                 Inr response \<Rightarrow>
                   Inr (parseSummaryResponse kw jsonParse env (Suc k) (ai_content response) msgs ty)
               | Inl err \<Rightarrow> Inr (generateBasicSummary kw env (Suc k) msgs ty)))"

text \<open>The prompt that \<open>generateSummary\<close> sends for a message slice.\<close>

definition summaryPromptOf ::
  "ConversationMessage list \<Rightarrow> SummaryType \<Rightarrow> PersonaConfig \<times> PersonaConfig \<Rightarrow> string" where
  "summaryPromptOf msgs ty ps = buildSummaryPrompt (join (map renderMessage msgs) [CHR 0x0A]) ty ps"

section \<open>Example data\<close>

definition fiveAppends :: "append_args list" where
  "fiveAppends =
     [(''id-1'', 1, ''Alice'', ''Message 1'', None),
      (''id-2'', 2, ''Bob'', ''Message 2'', None),
      (''id-3'', 3, ''Alice'', ''Message 3'', None),
      (''id-4'', 4, ''Bob'', ''Message 4'', None),
      (''id-5'', 5, ''Alice'', ''Message 5'', None)]"

definition caseFold :: "bool \<Rightarrow> string \<Rightarrow> string" where
  "caseFold caseSensitive s = (if caseSensitive then s else toLowerCase s)"

definition greetings :: ConversationHistoryManager where
  "greetings = appendAll (newHistoryManager 0 None 1000 20)
     [(''id-1'', 1, ''Alice'', ''Hello world'', None),
      (''id-2'', 2, ''Bob'', ''Goodbye'', None),
      (''id-3'', 3, ''Alice'', ''Hello everyone'', None)]"

text \<open>Backend stubs: the connectivity check and every generation call have a fixed outcome.\<close>

definition stubEnv :: "bool \<Rightarrow> thrown + AIResponse \<Rightarrow> Env" where
  "stubEnv isUp outcome =
     \<lparr> checkConnection = (\<lambda>k. isUp),
       generateResponse = (\<lambda>k prompt systemPrompt ctx. outcome),
       randomUUID = (\<lambda>k. replicate (Suc k) (CHR ''u'')),
       newDate = (\<lambda>k. 1000 * int k) \<rparr>"

definition echoEnv :: Env where
  "echoEnv = stubEnv True (Inr \<lparr> ai_content = '' Interesting point. '', ai_model = ''llama3'',
                                  ai_timestamp = 0, tokensUsed = None \<rparr>)"

definition failingEnv :: Env where
  "failingEnv = stubEnv True (Inl (AIClientError ''Failed to generate response: fetch failed''))"

definition offlineEnv :: Env where
  "offlineEnv = stubEnv False (Inl (AIClientError ''Failed to generate response: fetch failed''))"

definition alice :: PersonaConfig where
  "alice = \<lparr> name = ''Alice'', personality = ''curious'', speakingStyle = ''warm'',
             interests = [''science''], systemPrompt = None \<rparr>"

definition bob :: PersonaConfig where
  "bob = \<lparr> name = ''Bob'', personality = ''sceptical'', speakingStyle = ''dry'',
           interests = [''history''], systemPrompt = None \<rparr>"

definition demoConfig :: Config where
  "demoConfig = \<lparr> model = ''llama3'', cfgMaxTurns = None, turnDelay = 2000, contextWindow = 20,
                  primaryPersona = alice, secondaryPersona = bob \<rparr>"

definition turns :: "int \<Rightarrow> CLIOptions" where
  "turns n = \<lparr> optTopic = None, optMaxTurns = Some n \<rparr>"

definition twoPersonas :: PersonaManager where
  "twoPersonas = \<lparr> personas = [(''alice'', alice), (''bob'', bob)] \<rparr>"

definition onePersona :: PersonaManager where
  "onePersona = \<lparr> personas = [(''alice'', alice)] \<rparr>"

text \<open>A keyword extraction and a JSON parser for the examples: the parser knows the documents
  \<open>{}\<close> and \<open>null\<close> and rejects every other text.\<close>

definition noKeywords :: "string \<Rightarrow> string list" where
  "noKeywords s = []"

definition tinyParse :: "string \<Rightarrow> json option" where
  "tinyParse s = (if s = ''{}'' then Some (JObj []) else if s = ''null'' then Some JNull else None)"

definition replyEnv :: "string \<Rightarrow> Env" where
  "replyEnv s = stubEnv True (Inr \<lparr> ai_content = s, ai_model = ''llama3'',
                                     ai_timestamp = 0, tokensUsed = None \<rparr>)"

definition oneMessage :: "ConversationMessage list" where
  "oneMessage = [mkMessage ''id-1'' 1 ''Alice'' ''Hello world'' None]"

section \<open>Properties of the ledger\<close>


lemma lastn_0: "lastn 0 xs = []"
  by (simp add: lastn_def)

lemma lastn_all: "length xs \<le> n \<Longrightarrow> lastn n xs = xs"
  by (simp add: lastn_def)

lemma length_lastn: "length (lastn n xs) = min n (length xs)"
  by (simp add: lastn_def)

lemma lastn_snoc: "lastn (Suc n) (xs @ [x]) = lastn n xs @ [x]"
  by (simp add: lastn_def Suc_diff_le)

lemma appendAll_snoc: "appendAll hm (as @ [a]) = appendOne (appendAll hm as) a"
  by (simp add: appendAll_def)

lemma appendOne_total:
  "totalMessages (history (appendOne hm a)) = Suc (totalMessages (history hm))"
  by (cases a) (simp add: appendOne_def addMessage_def Let_def)

lemma appendOne_maxMessages: "maxMessages (appendOne hm a) = maxMessages hm"
  by (cases a) (simp add: appendOne_def addMessage_def Let_def)

lemma appendAll_maxMessages: "maxMessages (appendAll hm as) = maxMessages hm"
  by (induction as rule: rev_induct) (simp_all add: appendAll_def appendOne_maxMessages)

lemma appendAll_total:
  "totalMessages (history (appendAll hm as)) = totalMessages (history hm) + length as"
  by (induction as rule: rev_induct) (simp_all add: appendAll_snoc appendOne_total, simp add: appendAll_def)

lemma appendOne_messages:
  "messages (history (appendOne hm a)) =
     (let pushed = messages (history hm) @ [messageOf a]
      in if int (length pushed) > maxMessages hm
         then drop (nat (int (length pushed) - maxMessages hm)) pushed else pushed)"
  by (cases a) (simp add: appendOne_def addMessage_def messageOf_def Let_def)

lemma appendAll_messages_gen:
  "messages (history hm) = [] \<Longrightarrow>
   messages (history (appendAll hm as)) =
     lastn (nat (min (int (length as)) (maxMessages hm))) (map messageOf as)"
proof (induction as rule: rev_induct)
  case Nil
  then show ?case by (simp add: appendAll_def lastn_def)
next
  case (snoc a as)
  let ?mr = "maxMessages hm"
  let ?N = "length as"
  let ?k = "nat (min (int ?N) ?mr)"
  have IH: "messages (history (appendAll hm as)) = lastn ?k (map messageOf as)"
    using snoc by simp
  have len: "length (lastn ?k (map messageOf as)) = ?k"
    by (simp add: length_lastn)
  have msgs: "messages (history (appendAll hm (as @ [a]))) =
      (let pushed = lastn ?k (map messageOf as) @ [messageOf a]
       in if int (length pushed) > ?mr
          then drop (nat (int (length pushed) - ?mr)) pushed else pushed)"
    by (simp add: appendAll_snoc appendOne_messages IH appendAll_maxMessages Let_def)
  show ?case
  proof (cases "?mr \<le> 0")
    case True
    then show ?thesis using msgs len by (simp add: lastn_def Let_def)
  next
    case False
    show ?thesis
    proof (cases "?mr \<le> int ?N")
      case True
      with False have k: "?k = nat ?mr" by simp
      have "messages (history (appendAll hm (as @ [a]))) = drop 1 (lastn (nat ?mr) (map messageOf as) @ [messageOf a])"
        using msgs len k False True by (simp add: Let_def)
      also have "\<dots> = lastn (nat ?mr) (map messageOf (as @ [a]))"
        using False True by (simp add: lastn_def Suc_diff_le) 
      finally show ?thesis using False True by simp
    next
      case F2: False
      then have k: "?k = ?N" by simp
      show ?thesis using msgs len k F2 by (simp add: Let_def lastn_def)
    qed
  qed
qed

text \<open>
  Claim C2. After any sequence of appends to a new ledger, \<open>totalMessages\<close> is the number of
  appends, whatever was trimmed, and the retained messages are the last
  \<open>min N maxMessages\<close> of the appended ones in append order (none when \<open>maxMessages\<close> is not
  positive): trimming removes from the front only. With \<open>maxMessages = 3\<close>, after the appends
  of \<open>Message 1\<close> to \<open>Message 5\<close> the retained contents are \<open>Message 3\<close>, \<open>Message 4\<close>,
  \<open>Message 5\<close> and \<open>totalMessages\<close> is 5.
\<close>

theorem addMessage_retention:
  "totalMessages (history (appendAll (newHistoryManager t0 tp maxRetain cw) as)) = length as
   \<and> messages (history (appendAll (newHistoryManager t0 tp maxRetain cw) as)) =
       lastn (nat (min (int (length as)) maxRetain)) (map messageOf as)
   \<and> map content (messages (history (appendAll (newHistoryManager t0 tp 3 cw) fiveAppends))) =
       [''Message 3'', ''Message 4'', ''Message 5'']
   \<and> totalMessages (history (appendAll (newHistoryManager t0 tp 3 cw) fiveAppends)) = 5"
proof -
  let ?h = "newHistoryManager t0 tp maxRetain cw"
  have e: "messages (history ?h) = []" and m: "maxMessages ?h = maxRetain"
    and z: "totalMessages (history ?h) = 0"
    by (simp_all add: newHistoryManager_def)
  have a: "totalMessages (history (appendAll ?h as)) = length as"
    by (simp add: appendAll_total z)
  have b: "messages (history (appendAll ?h as)) =
       lastn (nat (min (int (length as)) maxRetain)) (map messageOf as)"
    using appendAll_messages_gen [OF e, of as] by (simp add: m)
  let ?h3 = "newHistoryManager t0 tp 3 cw"
  have e3: "messages (history ?h3) = []" and m3: "maxMessages ?h3 = 3"
    and z3: "totalMessages (history ?h3) = 0"
    by (simp_all add: newHistoryManager_def)
  have c: "map content (messages (history (appendAll ?h3 fiveAppends))) =
       [''Message 3'', ''Message 4'', ''Message 5'']"
    using appendAll_messages_gen [OF e3, of fiveAppends]
    by (simp add: m3 fiveAppends_def lastn_def messageOf_def mkMessage_def)
  have d: "totalMessages (history (appendAll ?h3 fiveAppends)) = 5"
    by (simp add: appendAll_total z3 fiveAppends_def)
  show ?thesis using a b c d by blast
qed

text \<open>
  Claim C8. For every ledger and every integer \<open>count\<close>, \<open>getLastMessages\<close> returns the last
  \<open>min count length\<close> retained messages in ledger order, a negative count counting as zero;
  the count 0 and every negative count give the empty list, and a count of at least the
  retained length gives all retained messages.
\<close>

theorem getLastMessages_lastN:
  "getLastMessages hm count =
     lastn (nat (min (max 0 count) (int (length (getMessages hm))))) (getMessages hm)
   \<and> getLastMessages hm 0 = []
   \<and> (count < 0 \<longrightarrow> getLastMessages hm count = [])
   \<and> (int (length (getMessages hm)) \<le> count \<longrightarrow> getLastMessages hm count = getMessages hm)"
  by (auto simp: getLastMessages_def getMessages_def lastn_def Let_def max_def min_def nat_diff_distrib')

lemma startsWith_append: "startsWith s q \<longleftrightarrow> (\<exists>post. s = q @ post)"
  by (induction s q rule: startsWith.induct) auto

lemma includesStr_sublist: "includesStr s q \<longleftrightarrow> sublist q s"
proof (induction s)
  case Nil
  then show ?case by (cases q) (simp_all)
next
  case (Cons c cs)
  then show ?case
    by (simp add: sublist_Cons_right startsWith_append prefix_def del: startsWith.simps)
qed

lemma greetings_messages:
  "messages (history greetings) =
     [mkMessage ''id-1'' 1 ''Alice'' ''Hello world'' None,
      mkMessage ''id-2'' 2 ''Bob'' ''Goodbye'' None,
      mkMessage ''id-3'' 3 ''Alice'' ''Hello everyone'' None]"
  by (simp add: greetings_def appendAll_def appendOne_def addMessage_def newHistoryManager_def Let_def)

lemma lower_examples:
  "toLowerCase ''hello'' = ''hello''"
  "toLowerCase ''Hello world'' = ''hello world''"
  "toLowerCase ''Goodbye'' = ''goodbye''"
  "toLowerCase ''Hello everyone'' = ''hello everyone''"
  "toLowerCase ''Alice'' = ''alice''"
  "toLowerCase ''Bob'' = ''bob''"
  by code_simp+

text \<open>
  Claim C9. \<open>searchMessages\<close> returns exactly the retained messages whose content or speaker
  name has the query as a contiguous substring, both sides lower-cased unless
  \<open>caseSensitive\<close> is set, and it keeps the ledger's order. On the ledger \<open>greetings\<close> the
  default search for \<open>hello\<close> finds \<open>Hello world\<close> and \<open>Hello everyone\<close> and not \<open>Goodbye\<close>.
\<close>

theorem searchMessages_substring:
  "searchMessages hm query caseSensitive =
     filter (\<lambda>m. sublist (caseFold caseSensitive query) (caseFold caseSensitive (content m))
                \<or> sublist (caseFold caseSensitive query) (caseFold caseSensitive (personaName m)))
            (getMessages hm)
   \<and> subseq (searchMessages hm query caseSensitive) (getMessages hm)
   \<and> map content (searchMessages greetings ''hello'' False) = [''Hello world'', ''Hello everyone'']"
proof -
  have a: "searchMessages hm query caseSensitive =
     filter (\<lambda>m. sublist (caseFold caseSensitive query) (caseFold caseSensitive (content m))
                \<or> sublist (caseFold caseSensitive query) (caseFold caseSensitive (personaName m)))
            (getMessages hm)"
    by (simp add: searchMessages_def getMessages_def caseFold_def Let_def includesStr_sublist)
  have b: "subseq (searchMessages hm query caseSensitive) (getMessages hm)"
    by (simp add: searchMessages_def getMessages_def Let_def)
  have c: "map content (searchMessages greetings ''hello'' False) = [''Hello world'', ''Hello everyone'']"
    by (simp add: searchMessages_def greetings_messages mkMessage_def lower_examples Let_def)
  show ?thesis using a b c by blast
qed

theorem getLastMessages_lastN_witness:
  "(-1::int) < 0 \<and> getLastMessages greetings (-1) = []
   \<and> int (length (getMessages greetings)) \<le> 5 \<and> getLastMessages greetings 5 = getMessages greetings
   \<and> map content (getLastMessages greetings 2) = [''Goodbye'', ''Hello everyone'']"
proof -
  have l: "int (length (getMessages greetings)) \<le> 5"
    by (simp add: getMessages_def greetings_messages)
  have "getLastMessages greetings (-1) = []"
    using getLastMessages_lastN [of greetings "-1"] by (simp add: lastn_0)
  moreover have "getLastMessages greetings 5 = getMessages greetings"
    using getLastMessages_lastN [of greetings 5] l by (simp add: lastn_def)
  moreover have "map content (getLastMessages greetings 2) = [''Goodbye'', ''Hello everyone'']"
    using getLastMessages_lastN [of greetings 2]
    by (simp add: getMessages_def greetings_messages lastn_def mkMessage_def)
  ultimately show ?thesis using l by simp
qed

section \<open>Properties of the scheduler\<close>

lemma generate_fail:
  assumes "\<forall>p s c. isl (generateResponse env (reads m) p s c)"
  shows "generatePersonaResponse env persona m =
           (Inl (generationFailed persona), m\<lparr> reads := Suc (reads m) \<rparr>)"
proof -
  obtain e where "generateResponse env (reads m)
      (buildConversationPrompt m (join (lastn 10 (getContextWindow (historyManager m))) [CHR 0x0A]) persona)
      (case systemPrompt persona of None \<Rightarrow> buildDefaultSystemPrompt persona
        | Some sp \<Rightarrow> if sp = [] then buildDefaultSystemPrompt persona else sp)
      (getContextWindow (historyManager m)) = Inl e"
    using assms by (meson isl_def)
  then show ?thesis
    by (simp add: generatePersonaResponse_def Let_def generationFailed_def)
qed

lemma generate_ok:
  assumes "\<forall>p s c. \<not> isl (generateResponse env (reads m) p s c)"
  shows "\<exists>txt. generatePersonaResponse env persona m = (Inr txt, m\<lparr> reads := Suc (reads m) \<rparr>)"
proof -
  let ?r = "generateResponse env (reads m)
      (buildConversationPrompt m (join (lastn 10 (getContextWindow (historyManager m))) [CHR 0x0A]) persona)
      (case systemPrompt persona of None \<Rightarrow> buildDefaultSystemPrompt persona
        | Some sp \<Rightarrow> if sp = [] then buildDefaultSystemPrompt persona else sp)
      (getContextWindow (historyManager m))"
  have "\<not> isl ?r" using assms by blast
  then obtain r where "?r = Inr r" by (cases ?r) auto
  then show ?thesis
    by (simp add: generatePersonaResponse_def Let_def)
qed

lemma getCurrentPersona_personaOf: "getCurrentPersona m = Some (personaOf m)"
  by (simp add: getCurrentPersona_def personaOf_def)

lemma failed_iteration:
  assumes "\<not> shouldStopConversation m"
      and "\<forall>p s c. isl (generateResponse env (reads m) p s c)"
  shows "loopIteration env m =
           (False, m\<lparr> emitted := emitted m @ [Thinking (name (personaOf m)),
                                                ErrorEvent (generationFailed (personaOf m))],
                       reads := Suc (reads m) \<rparr>)"
proof -
  have r: "\<forall>p s c. isl (generateResponse env (reads (emit (Thinking (name (personaOf m))) m)) p s c)"
    using assms(2) by (simp add: emit_def)
  have "loopIteration env m =
          catchInLoop (generationFailed (personaOf m))
            ((emit (Thinking (name (personaOf m))) m)
               \<lparr> reads := Suc (reads (emit (Thinking (name (personaOf m))) m)) \<rparr>)"
    using assms(1)
    by (simp add: loopIteration_def getCurrentPersona_personaOf Let_def generate_fail [OF r])
  then show ?thesis
    by (simp add: catchInLoop_def generationFailed_def emit_def)
qed

lemma retrying_step:
  assumes "retrying m" and "\<forall>t p s c. isl (generateResponse env t p s c)"
  shows "\<exists>m'. loopIteration env m = (False, m') \<and> retrying m'
            \<and> historyManager m' = historyManager m \<and> state m' = state m
            \<and> filter isErrorEvent (emitted m') =
                filter isErrorEvent (emitted m) @ [ErrorEvent (generationFailed (personaOf m))]"
proof -
  have ns: "\<not> shouldStopConversation m" using assms(1) by (simp add: retrying_def)
  have f: "\<forall>p s c. isl (generateResponse env (reads m) p s c)" using assms(2) by blast
  show ?thesis
    using assms(1)
    by (auto simp: failed_iteration [OF ns f] retrying_def shouldStopConversation_def
             split: option.splits)
qed

lemma loop_diverges_aux:
  assumes "runConversationLoop env m = Some y"
  shows "(\<forall>t p s c. isl (generateResponse env t p s c)) \<longrightarrow> \<not> retrying m"
proof (rule runConversationLoop.raw_induct
    [where P = "\<lambda>e m y. (\<forall>t p s c. isl (generateResponse e t p s c)) \<longrightarrow> \<not> retrying m",
      OF _ assms])
  fix loop e m y
  assume IH: "\<And>e m y. loop e m = Some y \<Longrightarrow>
                (\<forall>t p s c. isl (generateResponse e t p s c)) \<longrightarrow> \<not> retrying m"
    and eq: "(if isRunning m \<and> isActive (state m)
              then (let (left, m') = loopIteration e m
                    in if left then Some (endConversation e m') else loop e m')
              else Some (endConversation e m)) = Some y"
  show "(\<forall>t p s c. isl (generateResponse e t p s c)) \<longrightarrow> \<not> retrying m"
  proof (intro impI notI)
    assume fails: "\<forall>t p s c. isl (generateResponse e t p s c)" and r: "retrying m"
    obtain m' where it: "loopIteration e m = (False, m')" and r': "retrying m'"
      using retrying_step [OF r fails] by blast
    have "loop e m' = Some y"
      using eq r it by (simp add: retrying_def)
    then have "\<not> retrying m'" using IH fails by blast
    with r' show False by contradiction
  qed
qed

lemma loop_diverges:
  assumes "retrying m" and "\<forall>t p s c. isl (generateResponse env t p s c)"
  shows "runConversationLoop env m = None"
proof (cases "runConversationLoop env m")
  case None
  then show ?thesis .
next
  case (Some y)
  then show ?thesis using loop_diverges_aux [OF Some] assms by blast
qed

lemma loopState_retrying:
  assumes "retrying m" and "\<forall>t p s c. isl (generateResponse env t p s c)"
  shows "\<exists>m'. loopState env m k = Some m' \<and> retrying m'
           \<and> historyManager m' = historyManager m \<and> state m' = state m
           \<and> length (filter isErrorEvent (emitted m')) = length (filter isErrorEvent (emitted m)) + k"
proof (induction k)
  case 0
  then show ?case using assms(1) by simp
next
  case (Suc k)
  then obtain m' where s: "loopState env m k = Some m'" and r: "retrying m'"
    and h: "historyManager m' = historyManager m" and st: "state m' = state m"
    and n: "length (filter isErrorEvent (emitted m')) = length (filter isErrorEvent (emitted m)) + k"
    by blast
  obtain m'' where it: "loopIteration env m' = (False, m'')" and r'': "retrying m''"
    and h'': "historyManager m'' = historyManager m'" and st'': "state m'' = state m'"
    and e'': "filter isErrorEvent (emitted m'') =
                filter isErrorEvent (emitted m') @ [ErrorEvent (generationFailed (personaOf m'))]"
    using retrying_step [OF r assms(2)] by blast
  have "loopState env m (Suc k) = Some m''"
    using s r it by (simp add: retrying_def)
  then show ?case using r'' h'' st'' e'' h st n by simp
qed

lemma ok_iteration:
  assumes ns: "\<not> shouldStopConversation m"
      and ok: "\<forall>p s c. \<not> isl (generateResponse env (reads m) p s c)"
  shows "\<exists>m' msg. loopIteration env m = (False, m')
           \<and> personaName msg = name (personaOf m)
           \<and> historyManager m' = snd (addMessage (msg_id msg) (timestamp msg) (personaName msg)
                                         (content msg) (metadata msg) (historyManager m))
           \<and> emitted m' = emitted m @ [Thinking (name (personaOf m)), Message msg]
           \<and> currentTurn (state m') = Suc (currentTurn (state m))
           \<and> currentPersona (state m') = otherKey (currentPersona (state m))
           \<and> maxTurns (state m') = maxTurns (state m)
           \<and> isActive (state m') = isActive (state m)
           \<and> isRunning m' = isRunning m
           \<and> config m' = config m"
proof -
  let ?m1 = "emit (Thinking (name (personaOf m))) m"
  have "\<forall>p s c. \<not> isl (generateResponse env (reads ?m1) p s c)"
    using ok by (simp add: emit_def)
  from generate_ok [OF this]
  obtain reply where g: "generatePersonaResponse env (personaOf m) ?m1 = (Inr reply, (?m1) \<lparr> reads := Suc (reads ?m1) \<rparr>)"
    by blast
  let ?msg = "mkMessage (randomUUID env (Suc (reads m))) (newDate env (Suc (reads m)))
                (name (personaOf m)) reply
                (Some [(''turn'', JNum (of_nat (currentTurn (state m)))),
                       (''model'', JStr (model (config m)))])"
  have k: "otherKey (currentPersona (state m)) =
           (if currentPersona (state m) = primary then secondary else primary)"
    by (cases "currentPersona (state m)") simp_all
  have g': "generatePersonaResponse env (personaOf m)
              (m\<lparr> emitted := emitted m @ [Thinking (name (personaOf m))] \<rparr>) =
            (Inr reply, m\<lparr> emitted := emitted m @ [Thinking (name (personaOf m))],
                              reads := Suc (reads m) \<rparr>)"
    using g by (simp add: emit_def)
  let ?m' = "snd (loopIteration env m)"
  have li: "loopIteration env m = (False, ?m')"
    using ns by (simp add: loopIteration_def getCurrentPersona_personaOf Let_def emit_def g' split_def)
  have props: "personaName ?msg = name (personaOf m)
           \<and> historyManager ?m' = snd (addMessage (msg_id ?msg) (timestamp ?msg) (personaName ?msg)
                                         (content ?msg) (metadata ?msg) (historyManager m))
           \<and> emitted ?m' = emitted m @ [Thinking (name (personaOf m)), Message ?msg]
           \<and> currentTurn (state ?m') = Suc (currentTurn (state m))
           \<and> currentPersona (state ?m') = otherKey (currentPersona (state m))
           \<and> maxTurns (state ?m') = maxTurns (state m)
           \<and> isActive (state ?m') = isActive (state m)
           \<and> isRunning ?m' = isRunning m
           \<and> config ?m' = config m"
    using ns
    by (simp add: loopIteration_def getCurrentPersona_personaOf Let_def g' split_def
          emit_def updateContext_def switchPersona_def addMessage_def mkMessage_def k)
  show ?thesis
    using li props by blast
qed

lemma thinkingNames_append: "thinkingNames (xs @ ys) = thinkingNames xs @ thinkingNames ys"
  by (induction xs rule: thinkingNames.induct) simp_all

lemma messageSpeakers_append: "messageSpeakers (xs @ ys) = messageSpeakers xs @ messageSpeakers ys"
  by (induction xs rule: messageSpeakers.induct) simp_all

lemma name_personaOf: "name (personaOf m) = nameOfKey (config m) (currentPersona (state m))"
  by (simp add: personaOf_def nameOfKey_def)

lemma addMessage_total:
  "totalMessages (history (snd (addMessage u t p c md hm))) = Suc (totalMessages (history hm))"
  by (simp add: addMessage_def Let_def)

lemma endConversation_props:
  "state (endConversation env m) = (state m)\<lparr> isActive := False \<rparr>"
  "isRunning (endConversation env m) = False"
  "config (endConversation env m) = config m"
  "totalMessages (history (historyManager (endConversation env m))) =
     totalMessages (history (historyManager m))"
  "messages (history (historyManager (endConversation env m))) =
     messages (history (historyManager m))"
  "endTime (history (historyManager (endConversation env m))) = Some (newDate env (reads m))"
  "emitted (endConversation env m) =
     emitted m @ [Ended (totalMessages (history (historyManager m)))
                        (newDate env (reads m) - startTime (history (historyManager m)))]"
  by (simp_all add: endConversation_def Let_def emit_def endConversationH_def getDuration_def)

lemma loop_stops_at_limit:
  assumes "isRunning m" and "isActive (state m)" and "shouldStopConversation m"
  shows "runConversationLoop env m = Some (endConversation env m)"
  using assms by (subst runConversationLoop.simps) (simp add: loopIteration_def)

lemma loop_unfold_continue:
  assumes "isRunning m" and "isActive (state m)" and "loopIteration env m = (False, m')"
  shows "runConversationLoop env m = runConversationLoop env m'"
  using assms by (subst runConversationLoop.simps) simp

lemma loop_completes:
  assumes ok: "\<forall>t p s c. \<not> isl (generateResponse env t p s c)"
  shows "isRunning m \<Longrightarrow> isActive (state m) \<Longrightarrow> maxTurns (state m) = Some n \<Longrightarrow> 0 < n \<Longrightarrow>
         currentTurn (state m) + d = nat n \<Longrightarrow>
         \<exists>m' dur. runConversationLoop env m = Some m'
           \<and> currentTurn (state m') = nat n
           \<and> \<not> isActive (state m') \<and> \<not> isRunning m'
           \<and> totalMessages (history (historyManager m')) =
               totalMessages (history (historyManager m)) + d
           \<and> endTime (history (historyManager m')) \<noteq> None
           \<and> filter isEnded (emitted m') =
               filter isEnded (emitted m) @ [Ended (totalMessages (history (historyManager m)) + d) dur]
           \<and> thinkingNames (emitted m') =
               thinkingNames (emitted m) @ alternating (config m) (currentPersona (state m)) d
           \<and> messageSpeakers (emitted m') =
               messageSpeakers (emitted m) @ alternating (config m) (currentPersona (state m)) d
           \<and> currentPersona (state m') = (otherKey ^^ d) (currentPersona (state m))
           \<and> maxTurns (state m') = Some n
           \<and> config m' = config m"
proof (induction d arbitrary: m)
  case 0
  then have stop: "shouldStopConversation m"
    by (simp add: shouldStopConversation_def)
  show ?case
    using loop_stops_at_limit [OF "0.prems"(1) "0.prems"(2) stop, of env] "0.prems"
    by (simp add: endConversation_props thinkingNames_append messageSpeakers_append)
next
  case (Suc d)
  have ns: "\<not> shouldStopConversation m"
    using Suc.prems by (simp add: shouldStopConversation_def)
  have okm: "\<forall>p s c. \<not> isl (generateResponse env (reads m) p s c)" using ok by blast
  from ok_iteration [OF ns okm]
  obtain m1 msg where it: "loopIteration env m = (False, m1)"
    and pn: "personaName msg = name (personaOf m)"
    and hm: "historyManager m1 = snd (addMessage (msg_id msg) (timestamp msg) (personaName msg)
                                         (content msg) (metadata msg) (historyManager m))"
    and em: "emitted m1 = emitted m @ [Thinking (name (personaOf m)), Message msg]"
    and ct: "currentTurn (state m1) = Suc (currentTurn (state m))"
    and cp: "currentPersona (state m1) = otherKey (currentPersona (state m))"
    and mt: "maxTurns (state m1) = maxTurns (state m)"
    and ia: "isActive (state m1) = isActive (state m)"
    and ir: "isRunning m1 = isRunning m"
    and cf: "config m1 = config m"
    by blast
  have p1: "isRunning m1" "isActive (state m1)" "maxTurns (state m1) = Some n" "0 < n"
    "currentTurn (state m1) + d = nat n"
    using Suc.prems ct mt ia ir by simp_all
  from Suc.IH [OF p1]
  obtain m' dur where r: "runConversationLoop env m1 = Some m'"
    and a1: "currentTurn (state m') = nat n"
    and a2: "\<not> isActive (state m')" "\<not> isRunning m'"
    and a3: "totalMessages (history (historyManager m')) =
               totalMessages (history (historyManager m1)) + d"
    and a4: "endTime (history (historyManager m')) \<noteq> None"
    and a5: "filter isEnded (emitted m') =
               filter isEnded (emitted m1) @ [Ended (totalMessages (history (historyManager m1)) + d) dur]"
    and a6: "thinkingNames (emitted m') =
               thinkingNames (emitted m1) @ alternating (config m1) (currentPersona (state m1)) d"
    and a7: "messageSpeakers (emitted m') =
               messageSpeakers (emitted m1) @ alternating (config m1) (currentPersona (state m1)) d"
    and a8: "currentPersona (state m') = (otherKey ^^ d) (currentPersona (state m1))"
    and a9: "maxTurns (state m') = Some n" "config m' = config m1"
    by blast
  have run: "runConversationLoop env m = Some m'"
    using loop_unfold_continue [OF Suc.prems(1) Suc.prems(2) it] r by simp
  have t1: "totalMessages (history (historyManager m1)) = Suc (totalMessages (history (historyManager m)))"
    by (simp add: hm addMessage_total)
  have b5: "filter isEnded (emitted m') =
      filter isEnded (emitted m) @ [Ended (totalMessages (history (historyManager m)) + Suc d) dur]"
    using a5 by (simp add: em t1)
  have b6: "thinkingNames (emitted m') =
      thinkingNames (emitted m) @ alternating (config m) (currentPersona (state m)) (Suc d)"
    using a6 by (simp add: em cf cp thinkingNames_append name_personaOf)
  have b7: "messageSpeakers (emitted m') =
      messageSpeakers (emitted m) @ alternating (config m) (currentPersona (state m)) (Suc d)"
    using a7 by (simp add: em cf cp messageSpeakers_append name_personaOf pn)
  have b8: "currentPersona (state m') = (otherKey ^^ Suc d) (currentPersona (state m))"
    using a8 by (simp add: cp funpow_swap1)
  show ?case
    using run a1 a2 a3 a4 b5 b6 b7 b8 a9 t1 cf by auto
qed

lemma loopEntry_props:
  "isRunning (loopEntry env pr opts m)"
  "isActive (state (loopEntry env pr opts m))"
  "currentTurn (state (loopEntry env pr opts m)) = 0"
  "currentPersona (state (loopEntry env pr opts m)) = currentPersona (state m)"
  "config (loopEntry env pr opts m) = config m"
  "maxTurns (state (loopEntry env pr opts m)) =
     (case optMaxTurns opts of None \<Rightarrow> maxTurns (state m)
      | Some n \<Rightarrow> if n = 0 then maxTurns (state m) else Some n)"
  "emitted (loopEntry env pr opts m) =
     emitted m @ [Started, Message (promptMessage env (Suc (reads m)) pr)]"
  "totalMessages (history (historyManager (loopEntry env pr opts m))) =
     Suc (totalMessages (history (historyManager m)))"
  by (simp_all add: loopEntry_def setupConversation_def Let_def emit_def addMessage_def
      promptMessage_def setTopic_def split: option.splits)

lemma loopEntry_fresh_messages:
  "messages (history (historyManager (loopEntry env pr opts (newConversationManager env t cfg)))) =
     [promptMessage env (Suc (Suc t)) pr]"
  by (simp add: loopEntry_def setupConversation_def Let_def emit_def addMessage_def
      promptMessage_def newConversationManager_def newHistoryManager_def setTopic_def
      split: option.splits)

lemma fresh_props:
  "reads (newConversationManager env t cfg) = Suc t"
  "emitted (newConversationManager env t cfg) = []"
  "currentPersona (state (newConversationManager env t cfg)) = primary"
  "config (newConversationManager env t cfg) = cfg"
  "totalMessages (history (historyManager (newConversationManager env t cfg))) = 0"
  "\<not> isActive (state (newConversationManager env t cfg))"
  "\<not> isRunning (newConversationManager env t cfg)"
  by (simp_all add: newConversationManager_def newHistoryManager_def Let_def)

lemma start_connected:
  "checkConnection env (reads m) \<Longrightarrow>
   startConversation env pr opts m = runConversationLoop env (loopEntry env pr opts m)"
  by (simp add: startConversation_def loopEntry_def Let_def)

lemma loopEntry_retrying:
  assumes "optMaxTurns opts = Some n" and "0 < n"
  shows "retrying (loopEntry env pr opts m)"
  using assms by (simp add: retrying_def shouldStopConversation_def loopEntry_props)

lemma start_diverges:
  assumes "checkConnection env (reads m)"
      and "\<forall>k p s c. isl (generateResponse env k p s c)"
      and "optMaxTurns opts = Some n" and "0 < n"
  shows "startConversation env pr opts m = None"
  using loop_diverges [OF loopEntry_retrying [OF assms(3,4)] assms(2)] assms(1)
  by (simp add: start_connected)

text \<open>
  Claim C1, as the code has it. A new scheduler started with a positive \<open>maxTurns\<close> and a
  backend whose every generation call fails does not end by itself: \<open>startConversation\<close>
  never returns. At the head of the loop after any number \<open>k\<close> of passes the loop is still
  active, the turn index is 0, the speaker is the primary persona, the ledger holds the
  initial prompt alone with \<open>totalMessages = 1\<close>, and \<open>k\<close> error signals have been emitted, one
  for each failed attempt. Failed attempts do not count towards \<open>maxTurns\<close>.
\<close>

theorem failing_backend_never_reaches_limit:
  assumes conn: "checkConnection env (reads (newConversationManager env t cfg))"
      and fails: "\<forall>k p s c. isl (generateResponse env k p s c)"
      and limit: "optMaxTurns opts = Some n" "0 < n"
  shows "startConversation env pr opts (newConversationManager env t cfg) = None
         \<and> (\<forall>k. \<exists>m'. loopState env (loopEntry env pr opts (newConversationManager env t cfg)) k = Some m'
                \<and> retrying m'
                \<and> currentTurn (state m') = 0
                \<and> currentPersona (state m') = primary
                \<and> messages (history (historyManager m')) = [promptMessage env (Suc (Suc t)) pr]
                \<and> totalMessages (history (historyManager m')) = 1
                \<and> length (filter isErrorEvent (emitted m')) = k)"
proof (intro conjI allI)
  show "startConversation env pr opts (newConversationManager env t cfg) = None"
    using start_diverges [OF conn fails limit] .
next
  fix k
  let ?m = "loopEntry env pr opts (newConversationManager env t cfg)"
  from loopState_retrying [OF loopEntry_retrying [OF limit] fails,
      where k = k and env1 = env and pr1 = pr and m1 = "newConversationManager env t cfg"]
  obtain m' where s: "loopState env ?m k = Some m'" and r: "retrying m'"
    and h: "historyManager m' = historyManager ?m" and st: "state m' = state ?m"
    and e: "length (filter isErrorEvent (emitted m')) = length (filter isErrorEvent (emitted ?m)) + k"
    by blast
  show "\<exists>m'. loopState env ?m k = Some m'
                \<and> retrying m'
                \<and> currentTurn (state m') = 0
                \<and> currentPersona (state m') = primary
                \<and> messages (history (historyManager m')) = [promptMessage env (Suc (Suc t)) pr]
                \<and> totalMessages (history (historyManager m')) = 1
                \<and> length (filter isErrorEvent (emitted m')) = k"
    using s r e
    by (simp add: h st loopEntry_props fresh_props loopEntry_fresh_messages)
qed

lemma failingEnv_props:
  "checkConnection failingEnv k"
  "\<forall>k p s c. isl (generateResponse failingEnv k p s c)"
  by (simp_all add: failingEnv_def stubEnv_def)

lemma echoEnv_props:
  "checkConnection echoEnv k"
  "\<forall>k p s c. \<not> isl (generateResponse echoEnv k p s c)"
  by (simp_all add: echoEnv_def stubEnv_def)

theorem failing_backend_never_reaches_limit_witness:
  "checkConnection failingEnv (reads (newConversationManager failingEnv 0 demoConfig))
   \<and> (\<forall>k p s c. isl (generateResponse failingEnv k p s c))
   \<and> optMaxTurns (turns 3) = Some 3 \<and> (0::int) < 3
   \<and> startConversation failingEnv ''Hello'' (turns 3) (newConversationManager failingEnv 0 demoConfig) = None
   \<and> (\<exists>m'. loopState failingEnv (loopEntry failingEnv ''Hello'' (turns 3)
                 (newConversationManager failingEnv 0 demoConfig)) 7 = Some m'
          \<and> currentTurn (state m') = 0
          \<and> map content (messages (history (historyManager m'))) = [''Hello'']
          \<and> length (filter isErrorEvent (emitted m')) = 7)"
proof -
  have l: "optMaxTurns (turns 3) = Some 3" "(0::int) < 3" by (simp_all add: turns_def)
  note T = failing_backend_never_reaches_limit [OF failingEnv_props(1) failingEnv_props(2) l,
      where t = 0 and cfg = demoConfig and pr = "''Hello''"]
  from T have a: "startConversation failingEnv ''Hello'' (turns 3)
                    (newConversationManager failingEnv 0 demoConfig) = None"
    by (rule conjunct1)
  from T [THEN conjunct2, rule_format, of 7]
  obtain m' where "loopState failingEnv (loopEntry failingEnv ''Hello'' (turns 3)
                 (newConversationManager failingEnv 0 demoConfig)) 7 = Some m'"
    and "currentTurn (state m') = 0"
    and "messages (history (historyManager m')) = [promptMessage failingEnv (Suc (Suc 0)) ''Hello'']"
    and "length (filter isErrorEvent (emitted m')) = 7"
    by blast
  then have b: "\<exists>m'. loopState failingEnv (loopEntry failingEnv ''Hello'' (turns 3)
                 (newConversationManager failingEnv 0 demoConfig)) 7 = Some m'
          \<and> currentTurn (state m') = 0
          \<and> map content (messages (history (historyManager m'))) = [''Hello'']
          \<and> length (filter isErrorEvent (emitted m')) = 7"
    by (simp add: promptMessage_def mkMessage_def)
  show ?thesis
    using failingEnv_props l a b by blast
qed

text \<open>
  With the limit 3 and the stub that fails every call, the call never returns, and the loop
  is still running after four passes: it has not ended after three attempts.
\<close>

theorem failing_backend_counterexample:
  "startConversation failingEnv ''Hello'' (turns 3) (newConversationManager failingEnv 0 demoConfig) = None
   \<and> loopState failingEnv (loopEntry failingEnv ''Hello'' (turns 3)
        (newConversationManager failingEnv 0 demoConfig)) 4 \<noteq> None"
proof -
  have l: "optMaxTurns (turns 3) = Some 3" "(0::int) < 3" by (simp_all add: turns_def)
  have "startConversation failingEnv ''Hello'' (turns 3) (newConversationManager failingEnv 0 demoConfig) = None"
    using start_diverges [OF failingEnv_props(1) failingEnv_props(2) l] .
  moreover have "loopState failingEnv (loopEntry failingEnv ''Hello'' (turns 3)
        (newConversationManager failingEnv 0 demoConfig)) 4 \<noteq> None"
    using loopState_retrying [OF loopEntry_retrying [OF l] failingEnv_props(2),
        where k = 4 and env1 = failingEnv and pr1 = "''Hello''"
          and m1 = "newConversationManager failingEnv 0 demoConfig"]
    by auto
  ultimately show ?thesis by simp
qed

text \<open>
  Claim C3. A new scheduler started with \<open>maxTurns = 3\<close> and a backend that answers every call
  returns after three completed turns: the turn index is 3, the scheduler is inactive, the
  ledger's \<open>endTime\<close> is set, the trace holds one \<open>Ended\<close> signal and its \<open>totalMessages\<close> is 4,
  the prompt and three generated messages; the speakers were primary, secondary, primary.
\<close>

theorem three_turns_then_end:
  assumes conn: "checkConnection env (reads (newConversationManager env t cfg))"
      and ok: "\<forall>k p s c. \<not> isl (generateResponse env k p s c)"
      and limit: "optMaxTurns opts = Some 3"
  shows "\<exists>m' dur. startConversation env pr opts (newConversationManager env t cfg) = Some m'
           \<and> currentTurn (state m') = 3
           \<and> \<not> isActive (state m') \<and> \<not> isRunning m'
           \<and> endTime (history (historyManager m')) \<noteq> None
           \<and> filter isEnded (emitted m') = [Ended 4 dur]
           \<and> totalMessages (history (historyManager m')) = 4
           \<and> thinkingNames (emitted m') =
               [name (primaryPersona cfg), name (secondaryPersona cfg), name (primaryPersona cfg)]
           \<and> messageSpeakers (emitted m') =
               [''User'', name (primaryPersona cfg), name (secondaryPersona cfg),
                name (primaryPersona cfg)]"
proof -
  let ?fresh = "newConversationManager env t cfg"
  let ?m = "loopEntry env pr opts ?fresh"
  have p: "isRunning ?m" "isActive (state ?m)" "maxTurns (state ?m) = Some 3" "(0::int) < 3"
    "currentTurn (state ?m) + 3 = nat 3"
    using limit by (simp_all add: loopEntry_props)
  from loop_completes [OF ok p]
  obtain m' dur where r: "runConversationLoop env ?m = Some m'"
    and a: "currentTurn (state m') = nat 3" "\<not> isActive (state m')" "\<not> isRunning m'"
      "totalMessages (history (historyManager m')) = totalMessages (history (historyManager ?m)) + 3"
      "endTime (history (historyManager m')) \<noteq> None"
      "filter isEnded (emitted m') =
         filter isEnded (emitted ?m) @ [Ended (totalMessages (history (historyManager ?m)) + 3) dur]"
      "thinkingNames (emitted m') =
         thinkingNames (emitted ?m) @ alternating (config ?m) (currentPersona (state ?m)) 3"
      "messageSpeakers (emitted m') =
         messageSpeakers (emitted ?m) @ alternating (config ?m) (currentPersona (state ?m)) 3"
    by blast
  have s: "startConversation env pr opts ?fresh = Some m'"
    using r conn by (simp add: start_connected)
  have three: "(3::nat) = Suc (Suc (Suc 0))" by simp
  show ?thesis
    using s a
    by (simp add: loopEntry_props fresh_props promptMessage_def mkMessage_def nameOfKey_def three
             del: One_nat_def)
qed

theorem three_turns_then_end_witness:
  "checkConnection echoEnv (reads (newConversationManager echoEnv 0 demoConfig))
   \<and> (\<forall>k p s c. \<not> isl (generateResponse echoEnv k p s c))
   \<and> optMaxTurns (turns 3) = Some 3
   \<and> (\<exists>m' dur. startConversation echoEnv ''Hello'' (turns 3) (newConversationManager echoEnv 0 demoConfig) = Some m'
           \<and> currentTurn (state m') = 3
           \<and> endTime (history (historyManager m')) \<noteq> None
           \<and> filter isEnded (emitted m') = [Ended 4 dur]
           \<and> thinkingNames (emitted m') = [''Alice'', ''Bob'', ''Alice''])"
proof -
  have l: "optMaxTurns (turns 3) = Some 3" by (simp add: turns_def)
  from three_turns_then_end [OF echoEnv_props(1) echoEnv_props(2) l,
      where t = 0 and cfg = demoConfig and pr = "''Hello''"]
  obtain m' dur where
    "startConversation echoEnv ''Hello'' (turns 3) (newConversationManager echoEnv 0 demoConfig) = Some m'"
    "currentTurn (state m') = 3"
    "endTime (history (historyManager m')) \<noteq> None"
    "filter isEnded (emitted m') = [Ended 4 dur]"
    "thinkingNames (emitted m') =
       [name (primaryPersona demoConfig), name (secondaryPersona demoConfig),
        name (primaryPersona demoConfig)]"
    by blast
  then have "\<exists>m' dur. startConversation echoEnv ''Hello'' (turns 3) (newConversationManager echoEnv 0 demoConfig) = Some m'
           \<and> currentTurn (state m') = 3
           \<and> endTime (history (historyManager m')) \<noteq> None
           \<and> filter isEnded (emitted m') = [Ended 4 dur]
           \<and> thinkingNames (emitted m') = [''Alice'', ''Bob'', ''Alice'']"
    by (simp add: demoConfig_def alice_def bob_def)
  then show ?thesis
    using echoEnv_props l by blast
qed

text \<open>
  Claim C5. A pass through the loop body in which the generation call fails leaves the
  manager as it was, the trace and the read counter apart: the ledger, the turn index and
  the current speaker are unchanged, the loop is not left, and the trace gains the
  \<open>thinking\<close> signal for the speaker and one error signal with the code \<open>GENERATION_FAILED\<close>,
  which is not critical. The next pass therefore selects the same persona.
\<close>

theorem failed_turn_changes_nothing:
  assumes "\<not> shouldStopConversation m"
      and "\<forall>p s c. isl (generateResponse env (reads m) p s c)"
  shows "loopIteration env m =
           (False, m\<lparr> emitted := emitted m @ [Thinking (name (personaOf m)),
                                                ErrorEvent (generationFailed (personaOf m))],
                       reads := Suc (reads m) \<rparr>)
         \<and> historyManager (snd (loopIteration env m)) = historyManager m
         \<and> state (snd (loopIteration env m)) = state m
         \<and> isRunning (snd (loopIteration env m)) = isRunning m
         \<and> getCurrentPersona (snd (loopIteration env m)) = getCurrentPersona m
         \<and> \<not> isCritical (generationFailed (personaOf m))"
  by (simp add: failed_iteration [OF assms] getCurrentPersona_def generationFailed_def)

text \<open>
  Claim C6. When the connectivity check fails, \<open>startConversation\<close> returns at once with both
  flags cleared and one error signal with the code \<open>CONNECTION_FAILED\<close>; the ledger and the turn
  index are untouched, no message is appended and no turn is attempted.
\<close>

theorem connection_failure_stays_idle:
  assumes "\<not> checkConnection env (reads m)"
  shows "startConversation env pr opts m =
           Some (m\<lparr> isRunning := False, state := (state m)\<lparr> isActive := False \<rparr>,
                     emitted := emitted m @ [ErrorEvent connectionFailed],
                     reads := Suc (reads m) \<rparr>)
         \<and> (\<exists>m'. startConversation env pr opts m = Some m'
                \<and> \<not> isActive (state m') \<and> \<not> isRunning m'
                \<and> historyManager m' = historyManager m
                \<and> currentTurn (state m') = currentTurn (state m)
                \<and> thinkingNames (emitted m') = thinkingNames (emitted m)
                \<and> messageSpeakers (emitted m') = messageSpeakers (emitted m))"
  using assms
  by (simp add: startConversation_def Let_def emit_def thinkingNames_append messageSpeakers_append)

theorem failed_turn_changes_nothing_witness:
  "\<not> shouldStopConversation
        (loopEntry failingEnv ''Hello'' (turns 3) (newConversationManager failingEnv 0 demoConfig))
   \<and> (\<forall>p s c. isl (generateResponse failingEnv
          (reads (loopEntry failingEnv ''Hello'' (turns 3) (newConversationManager failingEnv 0 demoConfig)))
          p s c))
   \<and> state (snd (loopIteration failingEnv
         (loopEntry failingEnv ''Hello'' (turns 3) (newConversationManager failingEnv 0 demoConfig)))) =
       state (loopEntry failingEnv ''Hello'' (turns 3) (newConversationManager failingEnv 0 demoConfig))
   \<and> historyManager (snd (loopIteration failingEnv
         (loopEntry failingEnv ''Hello'' (turns 3) (newConversationManager failingEnv 0 demoConfig)))) =
       historyManager (loopEntry failingEnv ''Hello'' (turns 3) (newConversationManager failingEnv 0 demoConfig))"
proof -
  let ?m = "loopEntry failingEnv ''Hello'' (turns 3) (newConversationManager failingEnv 0 demoConfig)"
  have l: "optMaxTurns (turns 3) = Some 3" "(0::int) < 3" by (simp_all add: turns_def)
  have ns: "\<not> shouldStopConversation ?m"
    using loopEntry_retrying [OF l] by (simp add: retrying_def)
  have f: "\<forall>p s c. isl (generateResponse failingEnv (reads ?m) p s c)"
    using failingEnv_props(2) by blast
  show ?thesis
    using failed_turn_changes_nothing [OF ns f] ns f by blast
qed

theorem connection_failure_stays_idle_witness:
  "\<not> checkConnection offlineEnv (reads (newConversationManager offlineEnv 0 demoConfig))
   \<and> (\<exists>m'. startConversation offlineEnv ''Hello'' (turns 3) (newConversationManager offlineEnv 0 demoConfig) = Some m'
          \<and> \<not> isActive (state m')
          \<and> messages (history (historyManager m')) = []
          \<and> emitted m' = [ErrorEvent connectionFailed])"
proof -
  let ?m = "newConversationManager offlineEnv 0 demoConfig"
  have d: "\<not> checkConnection offlineEnv (reads ?m)"
    by (simp add: offlineEnv_def stubEnv_def)
  have e: "messages (history (historyManager ?m)) = []" "emitted ?m = []"
    by (simp_all add: newConversationManager_def newHistoryManager_def Let_def)
  show ?thesis
    using connection_failure_stays_idle [OF d, of "''Hello''" "turns 3"] d e
    by simp
qed

lemma start_completes:
  assumes conn: "checkConnection env (reads m)"
      and ok: "\<forall>k p s c. \<not> isl (generateResponse env k p s c)"
      and limit: "optMaxTurns opts = Some n" "0 < n"
  shows "\<exists>m'. startConversation env pr opts m = Some m'
           \<and> currentTurn (state m') = nat n
           \<and> thinkingNames (emitted m') =
               thinkingNames (emitted m) @ alternating (config m) (currentPersona (state m)) (nat n)
           \<and> currentPersona (state m') = (otherKey ^^ nat n) (currentPersona (state m))
           \<and> config m' = config m"
proof -
  let ?m = "loopEntry env pr opts m"
  have p: "isRunning ?m" "isActive (state ?m)" "maxTurns (state ?m) = Some n" "0 < n"
    "currentTurn (state ?m) + nat n = nat n"
    using limit by (simp_all add: loopEntry_props)
  from loop_completes [OF ok p]
  obtain m' where r: "runConversationLoop env ?m = Some m'"
    and a: "currentTurn (state m') = nat n"
      "thinkingNames (emitted m') =
         thinkingNames (emitted ?m) @ alternating (config ?m) (currentPersona (state ?m)) (nat n)"
      "currentPersona (state m') = (otherKey ^^ nat n) (currentPersona (state ?m))"
      "config m' = config ?m"
    by blast
  have s: "startConversation env pr opts m = Some m'"
    using r conn by (simp add: start_connected)
  show ?thesis
    using s a by (simp add: loopEntry_props thinkingNames_append)
qed

text \<open>
  Claim C4 at a run that follows a completed turn. \<open>startConversation\<close> resets the turn index
  and leaves \<open>currentPersona\<close> as the previous run left it. A new scheduler with the personas
  Alice (primary) and Bob (secondary) runs one turn, in which Alice speaks; a second
  conversation started on the same scheduler runs one turn, and its speaker is Bob.
\<close>

theorem restart_begins_with_secondary:
  "\<exists>m1 m2. startConversation echoEnv ''Hello'' (turns 1) (newConversationManager echoEnv 0 demoConfig) = Some m1
     \<and> startConversation echoEnv ''Hello again'' (turns 1) m1 = Some m2
     \<and> thinkingNames (emitted m1) = [''Alice'']
     \<and> thinkingNames (emitted m2) = [''Alice'', ''Bob'']"
proof -
  have l: "optMaxTurns (turns 1) = Some 1" "(0::int) < 1" by (simp_all add: turns_def)
  from start_completes [OF echoEnv_props(1) echoEnv_props(2) l,
      where m = "newConversationManager echoEnv 0 demoConfig" and pr = "''Hello''"]
  obtain m1 where s1: "startConversation echoEnv ''Hello'' (turns 1) (newConversationManager echoEnv 0 demoConfig) = Some m1"
    and t1: "thinkingNames (emitted m1) = [''Alice'']"
    and p1: "currentPersona (state m1) = secondary"
    and c1: "config m1 = demoConfig"
    by (auto simp: fresh_props nameOfKey_def demoConfig_def alice_def)
  from start_completes [OF echoEnv_props(1) echoEnv_props(2) l,
      where m = m1 and pr = "''Hello again''"]
  obtain m2 where s2: "startConversation echoEnv ''Hello again'' (turns 1) m1 = Some m2"
    and t2: "thinkingNames (emitted m2) = [''Alice'', ''Bob'']"
    by (auto simp: t1 p1 c1 nameOfKey_def demoConfig_def bob_def)
  show ?thesis using s1 s2 t1 t2 by blast
qed

section \<open>Properties of the persona registry\<close>

text \<open>The random sort permutes its input, whatever the random source, and the pair returned
  comes from two different slots of the registry.\<close>

lemma insertRandom_set: "set (fst (insertRandom rnd k x ys)) = insert x (set ys)"
  by (induction ys arbitrary: k) (auto simp: split_def Let_def)

lemma insertRandom_length: "length (fst (insertRandom rnd k x ys)) = Suc (length ys)"
  by (induction ys arbitrary: k) (simp_all add: split_def Let_def)

lemma insertRandom_distinct:
  "distinct ys \<Longrightarrow> x \<notin> set ys \<Longrightarrow> distinct (fst (insertRandom rnd k x ys))"
  by (induction ys arbitrary: k) (auto simp: split_def Let_def insertRandom_set)

lemma sortRandom_permutes:
  "set (fst (sortRandom rnd k acc xs)) = set acc \<union> set xs
   \<and> length (fst (sortRandom rnd k acc xs)) = length acc + length xs
   \<and> (distinct (acc @ xs) \<longrightarrow> distinct (fst (sortRandom rnd k acc xs)))"
proof (induction xs arbitrary: k acc)
  case Nil
  then show ?case by simp
next
  case (Cons x xs)
  show ?case
    using Cons.IH [of "snd (insertRandom rnd k x acc)" "fst (insertRandom rnd k x acc)"]
    by (auto simp: split_def Let_def insertRandom_set insertRandom_length insertRandom_distinct)
qed

lemma insertRandom_map:
  "insertRandom rnd k (f x) (map f ys) =
     (map f (fst (insertRandom rnd k x ys)), snd (insertRandom rnd k x ys))"
  by (induction ys arbitrary: k) (simp_all add: split_def Let_def)

lemma sortRandom_map:
  "fst (sortRandom rnd k (map f acc) (map f xs)) = map f (fst (sortRandom rnd k acc xs))"
proof (induction xs arbitrary: k acc)
  case Nil
  then show ?case by simp
next
  case (Cons x xs)
  show ?case
    using Cons.IH [of "snd (insertRandom rnd k x acc)" "fst (insertRandom rnd k x acc)"]
    by (simp add: split_def Let_def insertRandom_map)
qed

lemma getRandomPersonaPair_distinct_slots:
  assumes "2 \<le> length (personas pm)"
  shows "\<exists>i j. i < length (personas pm) \<and> j < length (personas pm) \<and> i \<noteq> j
           \<and> getRandomPersonaPair rnd pm = Inr (snd (personas pm ! i), snd (personas pm ! j))"
proof -
  let ?ps = "getAllPersonas pm"
  let ?n = "length ?ps"
  let ?idx = "fst (sortRandom rnd 0 [] [0..<?n])"
  have n: "?n = length (personas pm)" by (simp add: getAllPersonas_def)
  have len: "length ?idx = ?n" and dist: "distinct ?idx" and st: "set ?idx = {0..<?n}"
    using sortRandom_permutes [of rnd 0 "[]" "[0..<?n]"] by simp_all
  have "map (\<lambda>i. ?ps ! i) [0..<?n] = ?ps" by (rule map_nth)
  then have sh: "fst (sortRandom rnd 0 [] ?ps) = map (\<lambda>i. ?ps ! i) ?idx"
    using sortRandom_map [of rnd 0 "\<lambda>i. ?ps ! i" "[]" "[0..<?n]"] by simp
  have two: "2 \<le> ?n" using assms n by simp
  have i0: "?idx ! 0 < ?n" and i1: "?idx ! 1 < ?n"
    using st len two by (metis atLeastLessThan_iff nth_mem less_le_trans zero_less_numeral,
        metis atLeastLessThan_iff nth_mem less_le_trans one_less_numeral_iff semiring_norm(76))
  have ne: "?idx ! 0 \<noteq> ?idx ! 1"
  proof -
    have "(0::nat) < length ?idx" "(1::nat) < length ?idx" using len two by linarith+
    then show ?thesis using dist nth_eq_iff_index_eq [of ?idx 0 1] by simp
  qed
  have l0: "(0::nat) < length ?idx" and l1: "(1::nat) < length ?idx" using len two by linarith+
  have r: "getRandomPersonaPair rnd pm = Inr (?ps ! (?idx ! 0), ?ps ! (?idx ! 1))"
    using two nth_map [OF l0, of "\<lambda>i. ?ps ! i"] nth_map [OF l1, of "\<lambda>i. ?ps ! i"]
    by (simp add: getRandomPersonaPair_def Let_def sh)
  have nth: "\<And>i. i < ?n \<Longrightarrow> ?ps ! i = snd (personas pm ! i)"
    by (simp add: getAllPersonas_def)
  show ?thesis
    using r i0 i1 ne nth n by (metis)
qed

text \<open>
  Claim C10. \<open>getRandomPersonaPair\<close> raises the error \<open>At least 2 personas are required\<close> when
  the registry has fewer than two entries; on a registry of two entries it returns both of
  them, one from each slot, in one of the two orders, for every random source.
\<close>

theorem getRandomPersonaPair_two:
  "(length (personas pm) < 2 \<longrightarrow> getRandomPersonaPair rnd pm = Inl insufficientPersonas)
   \<and> (personas pm = [(k1, p1), (k2, p2)] \<longrightarrow>
        getRandomPersonaPair rnd pm = Inr (p1, p2) \<or> getRandomPersonaPair rnd pm = Inr (p2, p1))"
  by (auto simp: getRandomPersonaPair_def getAllPersonas_def Let_def)

theorem getRandomPersonaPair_two_witness:
  "length (personas onePersona) < 2 \<and> getRandomPersonaPair (\<lambda>k. 0) onePersona = Inl insufficientPersonas
   \<and> personas twoPersonas = [(''alice'', alice), (''bob'', bob)]
   \<and> getRandomPersonaPair (\<lambda>k. 0) twoPersonas = Inr (bob, alice)
   \<and> getRandomPersonaPair (\<lambda>k. 3 / 4) twoPersonas = Inr (alice, bob)"
proof -
  have a: "length (personas onePersona) < 2" by (simp add: onePersona_def)
  have b: "personas twoPersonas = [(''alice'', alice), (''bob'', bob)]" by (simp add: twoPersonas_def)
  have "getRandomPersonaPair (\<lambda>k. 0) onePersona = Inl insufficientPersonas"
    using getRandomPersonaPair_two [of onePersona "\<lambda>k. 0"] a by blast
  moreover have "getRandomPersonaPair (\<lambda>k. 0) twoPersonas = Inr (bob, alice)"
    using getRandomPersonaPair_two [of twoPersonas "\<lambda>k. 0" "''alice''" alice "''bob''" bob] b
    by (simp add: getRandomPersonaPair_def getAllPersonas_def Let_def)
  moreover have "getRandomPersonaPair (\<lambda>k. 3 / 4) twoPersonas = Inr (alice, bob)"
    using getRandomPersonaPair_two [of twoPersonas "\<lambda>k. 3 / 4" "''alice''" alice "''bob''" bob] b
    by (simp add: getRandomPersonaPair_def getAllPersonas_def Let_def)
  ultimately show ?thesis using a b by simp
qed

section \<open>Properties of the analytics\<close>

text \<open>
  Claim C7, as the code has it. \<open>generateSummary\<close> raises exactly when the slice is empty. For
  a non-empty slice it returns the basic summary when the backend call fails, when
  \<open>JSON.parse\<close> rejects the response, and when the response parses to \<open>null\<close>. A response that
  parses to any other value is not replaced by the basic summary, whatever its shape: the
  summary returned takes its content from the property \<open>summary\<close> of a parsed object, and is
  \<open>Summary not available\<close> when that property is missing or falsy or the value is no object.
\<close>

theorem generateSummary_fallback:
  "(isl (generateSummary kw jsonParse env k msgs ty ps) \<longleftrightarrow> msgs = [])
   \<and> (msgs \<noteq> [] \<and> isl (generateResponse env k (summaryPromptOf msgs ty ps) summarySystemPrompt [])
        \<longrightarrow> generateSummary kw jsonParse env k msgs ty ps =
              Inr (generateBasicSummary kw env (Suc k) msgs ty))
   \<and> (msgs \<noteq> [] \<and> generateResponse env k (summaryPromptOf msgs ty ps) summarySystemPrompt [] = Inr r
        \<and> jsonParse (ai_content r) = None
        \<longrightarrow> generateSummary kw jsonParse env k msgs ty ps =
              Inr (generateBasicSummary kw env (Suc k) msgs ty))
   \<and> (msgs \<noteq> [] \<and> generateResponse env k (summaryPromptOf msgs ty ps) summarySystemPrompt [] = Inr r
        \<and> jsonParse (ai_content r) = Some JNull
        \<longrightarrow> generateSummary kw jsonParse env k msgs ty ps =
              Inr (generateBasicSummary kw env (Suc (Suc k)) msgs ty))
   \<and> (msgs \<noteq> [] \<and> generateResponse env k (summaryPromptOf msgs ty ps) summarySystemPrompt [] = Inr r
        \<and> jsonParse (ai_content r) = Some v \<and> v \<noteq> JNull
        \<longrightarrow> (\<exists>s. generateSummary kw jsonParse env k msgs ty ps = Inr s
                \<and> summary_content s =
                    orElse (case v of JObj kvs \<Rightarrow> map_of kvs ''summary'' | _ \<Rightarrow> None)
                           (JStr ''Summary not available'')))"
  by (cases v)
     (auto simp: generateSummary_def parseSummaryResponse_def summaryPromptOf_def Let_def
           split: sum.splits)

lemma showNat_1: "showNat (Suc 0) = ''1''"
  by code_simp

lemma oneMessage_basic_content:
  "summary_content (generateBasicSummary noKeywords env k oneMessage ty) =
     JStr ''Conversation summary: 1 messages exchanged between Alice. Key topics discussed: .''"
  by (simp add: generateBasicSummary_def oneMessage_def mkMessage_def noKeywords_def Let_def showNat_1)

lemma replyEnv_generate: "generateResponse (replyEnv s) k p sp c =
    Inr \<lparr> ai_content = s, ai_model = ''llama3'', ai_timestamp = 0, tokensUsed = None \<rparr>"
  by (simp add: replyEnv_def stubEnv_def)

lemma tinyParse_values:
  "tinyParse ''{}'' = Some (JObj [])" "tinyParse ''null'' = Some JNull" "tinyParse ''Sorry, I cannot.'' = None"
  by (simp_all add: tinyParse_def)

text \<open>
  The response \<open>{}\<close> is valid JSON without any of the expected properties. The summary
  returned for it is not the basic summary: its content is \<open>Summary not available\<close>.
\<close>

theorem generateSummary_wrong_shape_counterexample:
  "generateSummary noKeywords tinyParse (replyEnv ''{}'') 0 oneMessage final (alice, bob) \<noteq>
     Inr (generateBasicSummary noKeywords (replyEnv ''{}'') 1 oneMessage final)
   \<and> map_sum id summary_content
        (generateSummary noKeywords tinyParse (replyEnv ''{}'') 0 oneMessage final (alice, bob)) =
       Inr (JStr ''Summary not available'')"
proof -
  have g: "generateSummary noKeywords tinyParse (replyEnv ''{}'') 0 oneMessage final (alice, bob) =
      Inr (parseSummaryResponse noKeywords tinyParse (replyEnv ''{}'') 1 ''{}'' oneMessage final)"
    by (simp add: generateSummary_def Let_def replyEnv_generate oneMessage_def)
  have c: "summary_content (parseSummaryResponse noKeywords tinyParse (replyEnv ''{}'') 1 ''{}'' oneMessage final) =
      JStr ''Summary not available''"
    by (simp add: parseSummaryResponse_def tinyParse_values)
  have "parseSummaryResponse noKeywords tinyParse (replyEnv ''{}'') 1 ''{}'' oneMessage final \<noteq>
      generateBasicSummary noKeywords (replyEnv ''{}'') 1 oneMessage final"
  proof
    assume "parseSummaryResponse noKeywords tinyParse (replyEnv ''{}'') 1 ''{}'' oneMessage final =
      generateBasicSummary noKeywords (replyEnv ''{}'') 1 oneMessage final"
    then have "summary_content (parseSummaryResponse noKeywords tinyParse (replyEnv ''{}'') 1 ''{}'' oneMessage final) =
      summary_content (generateBasicSummary noKeywords (replyEnv ''{}'') 1 oneMessage final)"
      by simp
    then show False unfolding c oneMessage_basic_content by simp
  qed
  then show ?thesis using g c by simp
qed

theorem generateSummary_fallback_witness:
  "oneMessage \<noteq> []
   \<and> isl (generateResponse failingEnv 0 (summaryPromptOf oneMessage final (alice, bob)) summarySystemPrompt [])
   \<and> generateSummary noKeywords tinyParse failingEnv 0 oneMessage final (alice, bob) =
       Inr (generateBasicSummary noKeywords failingEnv 1 oneMessage final)
   \<and> tinyParse ''Sorry, I cannot.'' = None
   \<and> generateSummary noKeywords tinyParse (replyEnv ''Sorry, I cannot.'') 0 oneMessage final (alice, bob) =
       Inr (generateBasicSummary noKeywords (replyEnv ''Sorry, I cannot.'') 1 oneMessage final)
   \<and> tinyParse ''null'' = Some JNull
   \<and> generateSummary noKeywords tinyParse (replyEnv ''null'') 0 oneMessage final (alice, bob) =
       Inr (generateBasicSummary noKeywords (replyEnv ''null'') 2 oneMessage final)
   \<and> tinyParse ''{}'' = Some (JObj [])
   \<and> (\<exists>s. generateSummary noKeywords tinyParse (replyEnv ''{}'') 0 oneMessage final (alice, bob) = Inr s
          \<and> summary_content s = JStr ''Summary not available'')
   \<and> isl (generateSummary noKeywords tinyParse failingEnv 0 [] final (alice, bob))"
proof -
  have ne: "oneMessage \<noteq> []" by (simp add: oneMessage_def)
  have f: "isl (generateResponse failingEnv 0 (summaryPromptOf oneMessage final (alice, bob)) summarySystemPrompt [])"
    using failingEnv_props(2) by blast
  have a: "generateSummary noKeywords tinyParse failingEnv 0 oneMessage final (alice, bob) =
       Inr (generateBasicSummary noKeywords failingEnv 1 oneMessage final)"
    using generateSummary_fallback [of noKeywords tinyParse failingEnv 0 oneMessage final "(alice, bob)"] ne f
    by simp
  have b: "generateSummary noKeywords tinyParse (replyEnv ''Sorry, I cannot.'') 0 oneMessage final (alice, bob) =
       Inr (generateBasicSummary noKeywords (replyEnv ''Sorry, I cannot.'') 1 oneMessage final)"
    using generateSummary_fallback [of noKeywords tinyParse "replyEnv ''Sorry, I cannot.''" 0 oneMessage final "(alice, bob)"
        "\<lparr> ai_content = ''Sorry, I cannot.'', ai_model = ''llama3'', ai_timestamp = 0, tokensUsed = None \<rparr>"]
      ne tinyParse_values
    by (simp add: replyEnv_generate)
  have c: "generateSummary noKeywords tinyParse (replyEnv ''null'') 0 oneMessage final (alice, bob) =
       Inr (generateBasicSummary noKeywords (replyEnv ''null'') 2 oneMessage final)"
    using generateSummary_fallback [of noKeywords tinyParse "replyEnv ''null''" 0 oneMessage final "(alice, bob)"
        "\<lparr> ai_content = ''null'', ai_model = ''llama3'', ai_timestamp = 0, tokensUsed = None \<rparr>"]
      ne tinyParse_values
    by (simp add: replyEnv_generate numeral_2_eq_2)
  have d: "\<exists>s. generateSummary noKeywords tinyParse (replyEnv ''{}'') 0 oneMessage final (alice, bob) = Inr s
          \<and> summary_content s = JStr ''Summary not available''"
    using generateSummary_fallback [of noKeywords tinyParse "replyEnv ''{}''" 0 oneMessage final "(alice, bob)"
        "\<lparr> ai_content = ''{}'', ai_model = ''llama3'', ai_timestamp = 0, tokensUsed = None \<rparr>" "JObj []"]
      ne tinyParse_values
    by (simp add: replyEnv_generate)
  have e: "isl (generateSummary noKeywords tinyParse failingEnv 0 [] final (alice, bob))"
    using generateSummary_fallback [of noKeywords tinyParse failingEnv 0 "[]" final "(alice, bob)"]
    by simp
  show ?thesis
    using ne f a b c d e tinyParse_values by blast
qed

end
